theory Spec2Isabelle
  imports Complex_Main "HOL-Library.Sublist"
begin

section \<open>The extraction engine of \<open>agent_scraping/diverse_scraper.py\<close>\<close>

text \<open>
  A shallow embedding of class \<open>DiverseScraper\<close>. The method names of the source are kept
  without their leading underscore (\<open>_clean_text\<close> is \<open>clean_text\<close>).

  Conventions of the model:
  \<^item> A Python \<open>str\<close> is a \<open>string\<close>; a character is its code point, below 256.
  \<^item> A Python \<open>float\<close> is the rational number it stands for; \<open>str(x)\<close> of a float is
    modelled by the number itself, and the empty string that the source uses for
    "no rating yet" by \<open>None\<close>.
  \<^item> The libraries (requests, BeautifulSoup, urljoin, random, time) are not part of the
    repository: a fetched page comes with the elements that each selector expression
    matches, the network and the random generator are oracles held in the state, and
    \<open>urljoin\<close> is a parameter.
  \<^item> Of the logger only the line written for each page is kept.
\<close>

subsection \<open>Text\<close>

text \<open>The characters that \<open>str.strip()\<close> removes and that \<open>\s\<close> matches: tab, line feed,
  vertical tab, form feed, carriage return, the four separators 28 to 31, space, next line
  (133) and no-break space (160).\<close>

definition whitespace :: "char list" where
  "whitespace = [CHR 0x09, CHR 0x0A, CHR 0x0B, CHR 0x0C, CHR 0x0D, CHR 0x1C, CHR 0x1D,
                 CHR 0x1E, CHR 0x1F, CHR 0x20, CHR 0x85, CHR 0xA0]"

definition is_space :: "char \<Rightarrow> bool" where
  "is_space c = (c \<in> set whitespace)"

definition is_digit :: "char \<Rightarrow> bool" where
  "is_digit c = (c \<in> set ''0123456789'')"

text \<open>\<open>text.strip()\<close>\<close>

definition strip :: "string \<Rightarrow> string" where
  "strip s = rev (dropWhile is_space (rev (dropWhile is_space s)))"

text \<open>\<open>re.sub(r'\s+', ' ', s)\<close>: every maximal run of whitespace becomes one space.\<close>

function collapse_ws :: "string \<Rightarrow> string" where
  "collapse_ws [] = []"
| "collapse_ws (c # cs) =
     (if is_space c then CHR '' '' # collapse_ws (dropWhile is_space cs)
      else c # collapse_ws cs)"
  by pat_completeness auto
termination
  by (relation "measure length") (auto simp: less_Suc_eq_le length_dropWhile_le)

text \<open>\<open>s.replace(a, b)\<close> for one-character \<open>a\<close> and \<open>b\<close>\<close>

definition replace_char :: "char \<Rightarrow> char \<Rightarrow> string \<Rightarrow> string" where
  "replace_char a b s = map (\<lambda>c. if c = a then b else c) s"

text \<open>\<open>s.replace(a, '')\<close>\<close>

definition remove_char :: "char \<Rightarrow> string \<Rightarrow> string" where
  "remove_char a s = filter (\<lambda>c. c \<noteq> a) s"

text \<open>\<open>s.lower()\<close> on code points below 256: A-Z and the accented capitals 192-222
  (but not the multiplication sign 215) move up by 32.\<close>

definition lower_char :: "char \<Rightarrow> char" where
  "lower_char c =
     (let n = (of_char c :: nat)
      in if (65 \<le> n \<and> n \<le> 90) \<or> (192 \<le> n \<and> n \<le> 222 \<and> n \<noteq> 215)
         then char_of (n + 32) else c)"

definition lower :: "string \<Rightarrow> string" where
  "lower s = map lower_char s"

text \<open>\<open>needle in s\<close> for strings\<close>

fun contains :: "string \<Rightarrow> string \<Rightarrow> bool" where
  "contains needle [] = (needle = [])"
| "contains needle (c # cs) = (prefix needle (c # cs) \<or> contains needle cs)"

text \<open>
  \<^verbatim>\<open>
  def _clean_text(self, text):
      if not text:
          return ""
      text = re.sub(r'\s+', ' ', text.strip())
      text = text.replace(';', ',').replace('\n', ' ').replace('\r', ' ')
      return text[:300]
  \<close>
\<close>

definition clean_text :: "string \<Rightarrow> string" where
  "clean_text text =
     (if text = [] then []
      else take 300
             (replace_char (CHR 0x0D) (CHR '' '')
               (replace_char (CHR 0x0A) (CHR '' '')
                 (replace_char (CHR '';'') (CHR '','')
                   (collapse_ws (strip text))))))"

subsection \<open>Numbers in text\<close>

text \<open>\<open>re.search(r'[\d,]+\.?\d*', s)\<close>. The pattern needs one character of \<open>[\d,]\<close> to start
  and everything after the first run is optional, so the leftmost match starts at the first
  such character and each of the three greedy parts takes all it can.\<close>

definition is_digit_or_comma :: "char \<Rightarrow> bool" where
  "is_digit_or_comma c = (is_digit c \<or> c = CHR '','')"

definition match_number :: "string \<Rightarrow> string" where
  "match_number s =
     (let whole = takeWhile is_digit_or_comma s;
          rest = dropWhile is_digit_or_comma s
      in case rest of
           [] \<Rightarrow> whole
         | c # rest' \<Rightarrow>
             if c = CHR ''.'' then whole @ ''.'' @ takeWhile is_digit rest' else whole)"

fun search_number :: "string \<Rightarrow> string option" where
  "search_number [] = None"
| "search_number (c # cs) =
     (if is_digit_or_comma c then Some (match_number (c # cs)) else search_number cs)"

text \<open>The value of a run of decimal digits.\<close>

definition digit_val :: "char \<Rightarrow> nat" where
  "digit_val c = of_char c - 48"

definition digits_val :: "string \<Rightarrow> nat" where
  "digits_val s = foldl (\<lambda>acc c. 10 * acc + digit_val c) 0 s"

text \<open>\<open>float(s)\<close> on the literals that the pattern above can match: digits, then possibly a
  point and more digits. A comma (or anything else) is a \<open>ValueError\<close>, here \<open>None\<close>.
  The result is the exact decimal value; Python holds the nearest double.\<close>

definition py_float :: "string \<Rightarrow> rat option" where
  "py_float s =
     (let whole = takeWhile is_digit s; rest = dropWhile is_digit s
      in if whole = [] then None
         else case rest of
                [] \<Rightarrow> Some (of_nat (digits_val whole))
              | c # fr \<Rightarrow>
                  if c = CHR ''.'' \<and> list_all is_digit fr
                  then Some (of_nat (digits_val whole)
                             + of_nat (digits_val fr) / 10 ^ length fr)
                  else None)"

text \<open>\<open>round(x, 2)\<close>: to the nearest hundredth, a tie going to the even neighbour. The
  source rounds the double nearest to \<open>x\<close>, which is \<open>x\<close> itself for an integer below
  \<open>2 ^ 53\<close>; for a number with a fraction the double can lie on the other side of a tie,
  and the result then differs by one hundredth.\<close>

definition py_round2 :: "rat \<Rightarrow> rat" where
  "py_round2 x =
     (let f = \<lfloor>x * 100\<rfloor>; r = x * 100 - of_int f
      in if r < 1 / 2 then of_int f / 100
         else if 1 / 2 < r then of_int (f + 1) / 100
         else if even f then of_int f / 100 else of_int (f + 1) / 100)"

text \<open>\<open>s.title()\<close> on code points below 256. The cased characters are the ASCII letters,
  the two ordinal indicators (170, 186), the micro sign (181) and the accented letters
  192-255 but for the signs 215 and 247. A cased character after a cased one is lowered;
  any other cased character is put in title case: a small letter moves down by 32, the
  sharp s (223) becomes "Ss". The micro sign and the y with diaeresis (255), whose
  capitals are not below 256, are left as they are.\<close>

definition is_cased :: "char \<Rightarrow> bool" where
  "is_cased c =
     (let n = (of_char c :: nat)
      in (65 \<le> n \<and> n \<le> 90) \<or> (97 \<le> n \<and> n \<le> 122) \<or> n = 170 \<or> n = 181 \<or> n = 186 \<or>
         (192 \<le> n \<and> n \<le> 255 \<and> n \<noteq> 215 \<and> n \<noteq> 247))"

definition title_char :: "char \<Rightarrow> string" where
  "title_char c =
     (let n = (of_char c :: nat)
      in if (97 \<le> n \<and> n \<le> 122) \<or> (224 \<le> n \<and> n \<le> 254 \<and> n \<noteq> 247)
         then [char_of (n - 32)]
         else if n = 223 then ''Ss'' else [c])"

fun title_from :: "bool \<Rightarrow> string \<Rightarrow> string" where
  "title_from previous_is_cased [] = []"
| "title_from previous_is_cased (c # cs) =
     (if is_cased c
      then (if previous_is_cased then [lower_char c] else title_char c) @ title_from True cs
      else c # title_from False cs)"

definition py_title :: "string \<Rightarrow> string" where
  "py_title s = title_from False s"

subsection \<open>Documents and responses\<close>

text \<open>A parsed element (a \<open>Tag\<close>, or the whole soup): its text, its single-valued
  attributes, the tokens of its \<open>class\<close> attribute, and for each selector expression the
  descendants that the expression matches, in document order.\<close>

datatype element =
  Element (get_text: string) (attrs: "(string \<times> string) list") (classes: "string list")
          (matches: "(string \<times> element list) list")

definition select :: "element \<Rightarrow> string \<Rightarrow> element list" where
  "select e selector = (case map_of (matches e) selector of None \<Rightarrow> [] | Some es \<Rightarrow> es)"

definition select_one :: "element \<Rightarrow> string \<Rightarrow> element option" where
  "select_one e selector = (case select e selector of [] \<Rightarrow> None | x # _ \<Rightarrow> Some x)"

text \<open>A decoded JSON value; an object is the \<open>dict\<close> it was decoded to.\<close>

datatype json =
  JNull | JBool bool | JNum rat | JStr string | JList "json list"
  | JObj "(string \<times> json) list"

text \<open>A response that passed \<open>raise_for_status\<close>: what \<open>BeautifulSoup(response.content,
  'html.parser')\<close> gives, and what \<open>response.json()\<close> gives (\<open>None\<close> when it raises).\<close>

record response =
  soup :: element
  json_body :: "json option"

text \<open>\<open>d.get(key, default)\<close>\<close>

definition dict_get :: "('k \<times> 'v) list \<Rightarrow> 'k \<Rightarrow> 'v \<Rightarrow> 'v" where
  "dict_get d key dflt = (case map_of d key of None \<Rightarrow> dflt | Some v \<Rightarrow> v)"

subsection \<open>The state outside the scraper\<close>

text \<open>
  \<^item> \<open>net w k url\<close>: what the \<open>k\<close>-th call of \<open>requests.get\<close> of the run gives when it asks
    for \<open>url\<close>; \<open>None\<close> stands for a \<open>RequestException\<close> (time-out, refused connection,
    error status).
  \<^item> \<open>gets\<close>: the URLs of the calls of \<open>requests.get\<close> so far, oldest first.
  \<^item> \<open>sleeps\<close>: the arguments of the calls of \<open>time.sleep\<close> so far, in seconds.
  \<^item> \<open>rnd\<close>: the draws the random generator will give next (0 once they are used up).
  \<^item> \<open>page_log\<close>: the page number and URL of each "Page ..." line of the logger.
\<close>

record world =
  net :: "nat \<Rightarrow> string \<Rightarrow> response option"
  gets :: "string list"
  sleeps :: "rat list"
  rnd :: "nat list"
  page_log :: "(nat \<times> string) list"

definition next_draw :: "world \<Rightarrow> nat \<times> world" where
  "next_draw w = (case rnd w of [] \<Rightarrow> (0, w) | d # ds \<Rightarrow> (d, w\<lparr>rnd := ds\<rparr>))"

text \<open>\<open>random.choice(xs)\<close> for a non-empty \<open>xs\<close>\<close>

definition random_choice :: "'a list \<Rightarrow> world \<Rightarrow> 'a \<times> world" where
  "random_choice xs w = (let (d, w') = next_draw w in (xs ! (d mod length xs), w'))"

text \<open>\<open>random.uniform(a, b)\<close> is \<open>a + (b - a) * random()\<close>, and \<open>random()\<close> is a multiple of
  \<open>2 ^ -53\<close> below 1.\<close>

definition random_uniform :: "rat \<Rightarrow> rat \<Rightarrow> world \<Rightarrow> rat \<times> world" where
  "random_uniform a b w =
     (let (d, w') = next_draw w in (a + (b - a) * (of_nat (d mod 2 ^ 53) / 2 ^ 53), w'))"

definition time_sleep :: "rat \<Rightarrow> world \<Rightarrow> world" where
  "time_sleep seconds w = w\<lparr>sleeps := sleeps w @ [seconds]\<rparr>"

text \<open>
  \<^verbatim>\<open>
  def _random_delay(self, min_delay=0.5, max_delay=2):
      delay = random.uniform(min_delay, max_delay)
      time.sleep(delay)
  \<close>
\<close>

definition random_delay :: "rat \<Rightarrow> rat \<Rightarrow> world \<Rightarrow> world" where
  "random_delay min_delay max_delay w =
     (let (delay, w') = random_uniform min_delay max_delay w in time_sleep delay w')"

subsection \<open>The fetch layer\<close>

text \<open>\<open>requests.get(url, headers=..., timeout=10)\<close> followed by \<open>raise_for_status()\<close>\<close>

definition requests_get :: "string \<Rightarrow> world \<Rightarrow> response option \<times> world" where
  "requests_get url w = (net w (length (gets w)) url, w\<lparr>gets := gets w @ [url]\<rparr>)"

text \<open>
  \<^verbatim>\<open>
  def _make_request(self, url, retries=3):
      for attempt in range(retries):
          try:
              response = requests.get(url, headers=self.headers, timeout=10)
              response.raise_for_status()
              response.encoding = 'utf-8'
              return response
          except requests.RequestException as e:
              self.logger.warning(...)
              if attempt < retries - 1:
                  time.sleep(2 ** attempt)
      return None
  \<close>
  \<open>attempts\<close> is the loop from \<open>attempt\<close> on.
\<close>

function attempts :: "string \<Rightarrow> nat \<Rightarrow> nat \<Rightarrow> world \<Rightarrow> response option \<times> world" where
  "attempts url retries attempt w =
     (if attempt < retries then
        (case fst (requests_get url w) of
           Some response \<Rightarrow> (Some response, snd (requests_get url w))
         | None \<Rightarrow>
             attempts url retries (Suc attempt)
               (if attempt < retries - 1
                then time_sleep (2 ^ attempt) (snd (requests_get url w))
                else snd (requests_get url w)))
      else (None, w))"
  by pat_completeness auto
termination
  by (relation "measure (\<lambda>(url, retries, attempt, w). retries - attempt)") auto

declare attempts.simps [simp del]

definition make_request :: "string \<Rightarrow> nat \<Rightarrow> world \<Rightarrow> response option \<times> world" where
  "make_request url retries w = attempts url retries 0 w"

subsection \<open>Field extraction\<close>

definition price_defaults :: "rat list" where
  "price_defaults = [19.99, 29.99, 49.99, 79.99, 99.99]"

definition rating_defaults :: "rat list" where
  "rating_defaults = [3, 3.5, 4, 4.5, 5]"

text \<open>
  \<^verbatim>\<open>
  def _extract_price(self, price_element):
      if not price_element:
          return str(random.choice([19.99, 29.99, 49.99, 79.99, 99.99]))
      price_text = self._clean_text(price_element.get_text())
      price_match = re.search(r'[\d,]+\.?\d*', price_text.replace(',', ''))
      if price_match:
          try:
              return str(float(price_match.group()))
          except:
              pass
      return str(random.choice([19.99, 29.99, 49.99, 79.99, 99.99]))
  \<close>
  A \<open>Tag\<close> is always true, so \<open>not price_element\<close> holds for \<open>None\<close> only.
\<close>

definition extract_price :: "element option \<Rightarrow> world \<Rightarrow> rat \<times> world" where
  "extract_price price_element w =
     (case price_element of
        None \<Rightarrow> random_choice price_defaults w
      | Some e \<Rightarrow>
          (let price_text = clean_text (get_text e) in
           case search_number (remove_char (CHR '','') price_text) of
             None \<Rightarrow> random_choice price_defaults w
           | Some price_match \<Rightarrow>
               (case py_float price_match of
                  Some x \<Rightarrow> (x, w)
                | None \<Rightarrow> random_choice price_defaults w)))"

text \<open>The record that the source builds as a \<open>dict\<close> with these eight keys.\<close>

record product =
  titre :: string
  prix :: rat
  disponibilite :: string
  note_moyenne :: rat
  description :: string
  vendeur :: string
  categorie :: string
  lien_produit :: string

definition rating_map :: "(string \<times> rat) list" where
  "rating_map = [(''One'', 1), (''Two'', 2), (''Three'', 3), (''Four'', 4), (''Five'', 5)]"

text \<open>\<open>for cls in rating_classes: if cls in rating_map: rating = rating_map[cls]; break\<close>\<close>

fun first_rating :: "string list \<Rightarrow> rat option" where
  "first_rating [] = None"
| "first_rating (cls # rating_classes) =
     (case map_of rating_map cls of
        Some r \<Rightarrow> Some r
      | None \<Rightarrow> first_rating rating_classes)"

text \<open>The availability block of \<open>_extract_product_data\<close>:
  \<^verbatim>\<open>
  availability = "Disponible"
  if avail_elem:
      avail_text = self._clean_text(avail_elem.get_text()).lower()
      if 'out' in avail_text or 'rupture' in avail_text:
          availability = "Rupture"
  \<close>
\<close>

definition classify_availability :: "element option \<Rightarrow> string" where
  "classify_availability avail_elem =
     (case avail_elem of
        None \<Rightarrow> ''Disponible''
      | Some a \<Rightarrow>
          (let avail_text = lower (clean_text (get_text a))
           in if contains ''out'' avail_text \<or> contains ''rupture'' avail_text
              then ''Rupture'' else ''Disponible''))"

text \<open>The rating block:
  \<^verbatim>\<open>
  rating = ""
  if rating_elem:
      if 'star-rating' in rating_elem.get('class', []):
          rating_classes = rating_elem.get('class', [])
          rating_map = {'One': '1', 'Two': '2', 'Three': '3', 'Four': '4', 'Five': '5'}
          for cls in rating_classes:
              if cls in rating_map:
                  rating = rating_map[cls]
                  break
      else:
          rating = self._extract_price(rating_elem)
  if not rating:
      rating = str(random.choice([3, 3.5, 4, 4.5, 5]))
  \<close>
\<close>

definition extract_rating :: "element option \<Rightarrow> world \<Rightarrow> rat \<times> world" where
  "extract_rating rating_elem w =
     (let (rating, w1) =
            (case rating_elem of
               None \<Rightarrow> (None, w)
             | Some r \<Rightarrow>
                 if ''star-rating'' \<in> set (classes r) then (first_rating (classes r), w)
                 else (let (x, w') = extract_price (Some r) w in (Some x, w')))
      in case rating of
           None \<Rightarrow> random_choice rating_defaults w1
         | Some x \<Rightarrow> (x, w1))"

text \<open>The title block:
  \<^verbatim>\<open>
  title_elem = product_element.select_one(selectors.get('title', '.title'))
  title = self._clean_text(title_elem.get_text() if title_elem else "")
  if title_elem and title_elem.has_attr('title'):
      title = title or self._clean_text(title_elem['title'])
  if not title:
      title = self._clean_text(product_element.get_text()[:100])
  \<close>
\<close>

definition extract_title :: "element \<Rightarrow> (string \<times> string) list \<Rightarrow> string" where
  "extract_title product_element selectors =
     (let title_elem = select_one product_element (dict_get selectors ''title'' ''.title'');
          title = clean_text (case title_elem of Some t \<Rightarrow> get_text t | None \<Rightarrow> []);
          title = (case title_elem of
                     None \<Rightarrow> title
                   | Some t \<Rightarrow>
                       (case map_of (attrs t) ''title'' of
                          None \<Rightarrow> title
                        | Some a \<Rightarrow> if title \<noteq> [] then title else clean_text a))
      in if title = [] then clean_text (take 100 (get_text product_element)) else title)"

text \<open>
  The rest of \<open>_extract_product_data(self, product_element, category_name, page_url,
  selectors)\<close>, in the order of the source: price, availability, rating, description,
  vendor, category, link.
  \<^verbatim>\<open>
  desc_elem = product_element.select_one(selectors.get('description', '.description'))
  description = self._clean_text(desc_elem.get_text() if desc_elem else "")
  vendor_elem = product_element.select_one(selectors.get('vendor', '.vendor'))
  vendor = self._clean_text(vendor_elem.get_text() if vendor_elem else "N/A")
  category = category_name.replace('_', ' ').title()
  if 'jsonplaceholder' in category_name:
      category = "Digital Content"
  link_elem = product_element.select_one(selectors.get('link', 'a'))
  product_link = (urljoin(page_url, link_elem['href'])
                  if link_elem and link_elem.has_attr('href') else page_url)
  return {'titre': title, 'prix': price, 'disponibilite': availability,
          'note_moyenne': rating,
          'description': description[:200] + "..." if len(description) > 200 else description,
          'vendeur': vendor, 'categorie': category, 'lien_produit': product_link}
  \<close>
\<close>

definition extract_product_data ::
  "(string \<Rightarrow> string \<Rightarrow> string) \<Rightarrow> element \<Rightarrow> string \<Rightarrow> string \<Rightarrow> (string \<times> string) list
     \<Rightarrow> world \<Rightarrow> product \<times> world" where
  "extract_product_data urljoin product_element category_name page_url selectors w =
     (let title = extract_title product_element selectors;
          price_elem = select_one product_element (dict_get selectors ''price'' ''.price'');
          (price, w1) = extract_price price_elem w;
          avail_elem = select_one product_element
                         (dict_get selectors ''availability'' ''.availability'');
          availability = classify_availability avail_elem;
          rating_elem = select_one product_element (dict_get selectors ''rating'' ''.rating'');
          (rating, w2) = extract_rating rating_elem w1;
          desc_elem = select_one product_element
                        (dict_get selectors ''description'' ''.description'');
          desc = clean_text (case desc_elem of Some d \<Rightarrow> get_text d | None \<Rightarrow> []);
          vendor_elem = select_one product_element (dict_get selectors ''vendor'' ''.vendor'');
          vendor = clean_text (case vendor_elem of Some v \<Rightarrow> get_text v | None \<Rightarrow> ''N/A'');
          category = (if contains ''jsonplaceholder'' category_name then ''Digital Content''
                      else py_title (replace_char (CHR ''_'') (CHR '' '') category_name));
          link_elem = select_one product_element (dict_get selectors ''link'' ''a'');
          product_link = (case link_elem of
                            None \<Rightarrow> page_url
                          | Some l \<Rightarrow>
                              (case map_of (attrs l) ''href'' of
                                 None \<Rightarrow> page_url
                               | Some href \<Rightarrow> urljoin page_url href))
      in (\<lparr>titre = title, prix = price, disponibilite = availability,
           note_moyenne = rating,
           description = (if length desc > 200 then take 200 desc @ ''...'' else desc),
           vendeur = vendor, categorie = category, lien_produit = product_link\<rparr>, w2))"

subsection \<open>The JSON path\<close>

text \<open>What an item can raise; every one of them is caught by the \<open>except Exception\<close> of the
  walker.\<close>

datatype exn = TypeError | AttributeError | ValueError | OverflowError

text \<open>\<open>self._clean_text(v[:n])\<close> for a decoded value \<open>v\<close> and \<open>n > 0\<close>: a string is cut and
  cleaned; an empty list is false, so it is cleaned to the empty string, and any other list
  has no \<open>strip\<close>; numbers, booleans, \<open>None\<close> and dicts cannot be sliced.\<close>

fun clean_slice :: "nat \<Rightarrow> json \<Rightarrow> exn + string" where
  "clean_slice n (JStr s) = Inr (clean_text (take n s))"
| "clean_slice n (JList xs) = (if take n xs = [] then Inr [] else Inl AttributeError)"
| "clean_slice n v = Inl TypeError"

text \<open>The doubles end below \<open>2 ^ 1024\<close>: the largest is \<open>2 ^ 1024 - 2 ^ 971\<close>, and a number
  from \<open>2 ^ 1024 - 2 ^ 970\<close> on is nearer to \<open>2 ^ 1024\<close> than to it.\<close>

definition float_limit :: rat where
  "float_limit = 2 ^ 1024 - 2 ^ 970"

text \<open>\<open>float(v)\<close> for a decoded value. A number is itself when its size is below
  \<open>float_limit\<close>; from there on it is an \<open>int\<close> (a literal with a fraction or an exponent is
  decoded to a double, and the infinite and NaN doubles are not in the model), and
  \<open>float\<close> of such an \<open>int\<close> raises \<open>OverflowError\<close>. A boolean is 0 or 1. A string is read by
  \<open>py_float\<close>, so that a sign, an exponent, surrounding blanks or \<open>inf\<close> in a string, which
  \<open>float\<close> accepts, are a \<open>ValueError\<close> here. Anything else is a \<open>TypeError\<close>.\<close>

fun float_of_json :: "json \<Rightarrow> exn + rat" where
  "float_of_json (JNum x) = (if \<bar>x\<bar> < float_limit then Inr x else Inl OverflowError)"
| "float_of_json (JBool b) = Inr (if b then 1 else 0)"
| "float_of_json (JStr s) = (case py_float s of Some x \<Rightarrow> Inr x | None \<Rightarrow> Inl ValueError)"
| "float_of_json v = Inl TypeError"

text \<open>
  \<^verbatim>\<open>
  def _create_product_from_json(self, json_element, category_name, url):
      title = self._clean_text(json_element.get('title', json_element.get('name', ''))[:50])
      if not title:
          title = "Digital Item"
      price = str(random.uniform(9.99, 99.99))
      if 'id' in json_element:
          price = str(round(float(json_element['id']) * 2, 2))
      description = self._clean_text(
          json_element.get('body', json_element.get('title', ''))[:200])
      if not description:
          description = "Digital content or media item."
      return {'titre': title, 'prix': price,
              'disponibilite': random.choice(['Disponible', 'Rupture']),
              'note_moyenne': str(random.choice([3, 3.5, 4, 4.5, 5])),
              'description': description, 'vendeur': 'Digital Store',
              'categorie': 'Digital Content', 'lien_produit': url}
  \<close>
  Only a \<open>dict\<close> has \<open>get\<close>. The state that comes back with an exception holds the draws
  made before it was raised. Doubling an id raises nothing: where the product leaves the
  doubles the source has the infinite double as the price, and the model the exact
  product.
\<close>

definition create_product_from_json ::
  "json \<Rightarrow> string \<Rightarrow> string \<Rightarrow> world \<Rightarrow> (exn + product) \<times> world" where
  "create_product_from_json json_element category_name url w =
     (case json_element of
        JObj d \<Rightarrow>
          (case clean_slice 50 (dict_get d ''title'' (dict_get d ''name'' (JStr []))) of
             Inl e \<Rightarrow> (Inl e, w)
           | Inr t \<Rightarrow>
               (let title = (if t = [] then ''Digital Item'' else t);
                    (u, w1) = random_uniform 9.99 99.99 w
                in case (case map_of d ''id'' of
                           None \<Rightarrow> Inr u
                         | Some v \<Rightarrow>
                             (case float_of_json v of
                                Inl e \<Rightarrow> Inl e
                              | Inr x \<Rightarrow> Inr (py_round2 (x * 2)))) of
                     Inl e \<Rightarrow> (Inl e, w1)
                   | Inr price \<Rightarrow>
                       (case clean_slice 200
                               (dict_get d ''body'' (dict_get d ''title'' (JStr []))) of
                          Inl e \<Rightarrow> (Inl e, w1)
                        | Inr b \<Rightarrow>
                            (let desc = (if b = [] then ''Digital content or media item.''
                                         else b);
                                 (availability, w2) =
                                   random_choice [''Disponible'', ''Rupture''] w1;
                                 (rating, w3) = random_choice rating_defaults w2
                             in (Inr \<lparr>titre = title, prix = price,
                                      disponibilite = availability, note_moyenne = rating,
                                      description = desc, vendeur = ''Digital Store'',
                                      categorie = ''Digital Content'', lien_produit = url\<rparr>,
                                 w3)))))
      | _ \<Rightarrow> (Inl AttributeError, w))"

text \<open>The loop over a JSON list in \<open>scrape_site_category\<close>:
  \<^verbatim>\<open>
  for item in json_data:
      product = self._create_product_from_json(item, category_name, current_url)
      if product['titre']:
          products.append(product)
  \<close>
  An exception leaves the loop (and, through \<open>except Exception\<close>, the crawl) with the
  products appended so far.
\<close>

fun json_items ::
  "string \<Rightarrow> string \<Rightarrow> json list \<Rightarrow> product list \<Rightarrow> world \<Rightarrow> product list \<times> world" where
  "json_items category_name current_url [] products w = (products, w)"
| "json_items category_name current_url (item # json_data) products w =
     (case create_product_from_json item category_name current_url w of
        (Inl e, w') \<Rightarrow> (products, w')
      | (Inr product, w') \<Rightarrow>
          json_items category_name current_url json_data
            (if titre product \<noteq> [] then products @ [product] else products) w')"

text \<open>The whole JSON branch, which always ends the crawl (a root that is not a list is
  treated as the list of that one value):
  \<^verbatim>\<open>
  try:
      json_data = response.json()
      if isinstance(json_data, list):
          for item in json_data: ...
      else:
          product = self._create_product_from_json(json_data, category_name, current_url)
          if product['titre']:
              products.append(product)
      break  # No pagination for JSON APIs
  except Exception as e:
      break
  \<close>
\<close>

definition json_page ::
  "string \<Rightarrow> string \<Rightarrow> response \<Rightarrow> product list \<Rightarrow> world \<Rightarrow> product list \<times> world" where
  "json_page category_name current_url resp products w =
     (case json_body resp of
        None \<Rightarrow> (products, w)
      | Some (JList json_data) \<Rightarrow> json_items category_name current_url json_data products w
      | Some json_data \<Rightarrow> json_items category_name current_url [json_data] products w)"

subsection \<open>The markup path and the walker\<close>

text \<open>
  \<^verbatim>\<open>
  container_selector = selectors.get('product_container', '.product')
  product_elements = soup.select(container_selector)
  if not product_elements:
      for alt_selector in ['article', '.item', '.product-item', 'li', '.product-grid']:
          product_elements = soup.select(alt_selector)
          if product_elements:
              break
  \<close>
\<close>

definition alt_selectors :: "string list" where
  "alt_selectors = [''article'', ''.item'', ''.product-item'', ''li'', ''.product-grid'']"

fun try_alternatives :: "element \<Rightarrow> string list \<Rightarrow> element list" where
  "try_alternatives page [] = []"
| "try_alternatives page (alt_selector # rest) =
     (let product_elements = select page alt_selector
      in if product_elements \<noteq> [] then product_elements else try_alternatives page rest)"

definition find_product_elements :: "element \<Rightarrow> (string \<times> string) list \<Rightarrow> element list" where
  "find_product_elements page selectors =
     (let container_selector = dict_get selectors ''product_container'' ''.product'';
          product_elements = select page container_selector
      in if product_elements = [] then try_alternatives page alt_selectors
         else product_elements)"

text \<open>
  \<^verbatim>\<open>
  for product_elem in product_elements:
      try:
          product_data = self._extract_product_data(
              product_elem, f"{site_name}_{category_name}", current_url, selectors)
          if product_data['titre']:
              products.append(product_data)
      except Exception as e:
          continue
  \<close>
  \<open>extract_product_data\<close> raises nothing in the model.
\<close>

fun extract_all ::
  "(string \<Rightarrow> string \<Rightarrow> string) \<Rightarrow> string \<Rightarrow> string \<Rightarrow> (string \<times> string) list
     \<Rightarrow> element list \<Rightarrow> product list \<Rightarrow> world \<Rightarrow> product list \<times> world" where
  "extract_all urljoin full_name current_url selectors [] products w = (products, w)"
| "extract_all urljoin full_name current_url selectors (product_elem # rest) products w =
     (let (product_data, w') =
            extract_product_data urljoin product_elem full_name current_url selectors w
      in extract_all urljoin full_name current_url selectors rest
           (if titre product_data \<noteq> [] then products @ [product_data] else products) w')"

text \<open>
  \<^verbatim>\<open>
  def _get_next_page_url(self, soup, current_url, selectors):
      next_links = soup.select(selectors.get('pagination', '.pagination a'))
      for link in next_links:
          if link.has_attr('href'):
              link_text = self._clean_text(link.get_text()).lower()
              if any(word in link_text for word in ['next', 'suivant', '>', '\<guillemotright>']):
                  return urljoin(current_url, link['href'])
      return None
  \<close>
  The last word is the single character 187.
\<close>

definition next_words :: "string list" where
  "next_words = [''next'', ''suivant'', ''>'', [CHR 0xBB]]"

fun first_next_link ::
  "(string \<Rightarrow> string \<Rightarrow> string) \<Rightarrow> string \<Rightarrow> element list \<Rightarrow> string option" where
  "first_next_link urljoin current_url [] = None"
| "first_next_link urljoin current_url (link # next_links) =
     (case map_of (attrs link) ''href'' of
        None \<Rightarrow> first_next_link urljoin current_url next_links
      | Some href \<Rightarrow>
          (let link_text = lower (clean_text (get_text link))
           in if list_ex (\<lambda>word. contains word link_text) next_words
              then Some (urljoin current_url href)
              else first_next_link urljoin current_url next_links))"

definition get_next_page_url ::
  "(string \<Rightarrow> string \<Rightarrow> string) \<Rightarrow> element \<Rightarrow> string \<Rightarrow> (string \<times> string) list
     \<Rightarrow> string option" where
  "get_next_page_url urljoin page current_url selectors =
     first_next_link urljoin current_url
       (select page (dict_get selectors ''pagination'' ''.pagination a''))"

text \<open>
  The loop of \<open>scrape_site_category\<close>:
  \<^verbatim>\<open>
  while current_url and page_count < max_pages:
      page_count += 1
      self.logger.info(f"Page {page_count} - {site_name}/{category_name}: {current_url}")
      response = self._make_request(current_url)
      if not response:
          break
      if 'jsonplaceholder' in site_name:
          ...                      # the JSON branch, which always breaks
      soup = BeautifulSoup(response.content, 'html.parser')
      ...                          # product_elements, see find_product_elements
      if not product_elements:
          break
      for product_elem in product_elements: ...
      next_url = self._get_next_page_url(soup, current_url, selectors)
      if next_url == current_url or not next_url:
          break
      current_url = next_url
      self._random_delay(1, 3)
  return products
  \<close>
  \<open>visit_page\<close> is the body of the loop, entered with the new value of \<open>page_count\<close>. It
  ends in a \<open>break\<close>, or at the bottom of the body with the next \<open>current_url\<close>.
\<close>

datatype outcome = Break "product list" world | Next_page "product list" string world

definition visit_page ::
  "(string \<Rightarrow> string \<Rightarrow> string) \<Rightarrow> string \<Rightarrow> string \<Rightarrow> (string \<times> string) list
     \<Rightarrow> product list \<Rightarrow> string \<Rightarrow> nat \<Rightarrow> world \<Rightarrow> outcome" where
  "visit_page urljoin site_name category_name selectors products current_url page_count w =
     (let w0 = w\<lparr>page_log := page_log w @ [(page_count, current_url)]\<rparr>
      in case make_request current_url 3 w0 of
           (None, w1) \<Rightarrow> Break products w1
         | (Some resp, w1) \<Rightarrow>
             if contains ''jsonplaceholder'' site_name
             then (case json_page category_name current_url resp products w1 of
                     (products', w2) \<Rightarrow> Break products' w2)
             else
               (let product_elements = find_product_elements (soup resp) selectors
                in if product_elements = [] then Break products w1
                   else
                     (case extract_all urljoin (site_name @ ''_'' @ category_name)
                             current_url selectors product_elements products w1 of
                        (products', w2) \<Rightarrow>
                          (case get_next_page_url urljoin (soup resp) current_url selectors of
                             None \<Rightarrow> Break products' w2
                           | Some next_url \<Rightarrow>
                               if next_url = current_url \<or> next_url = []
                               then Break products' w2
                               else Next_page products' next_url (random_delay 1 3 w2)))))"

function walk ::
  "(string \<Rightarrow> string \<Rightarrow> string) \<Rightarrow> string \<Rightarrow> string \<Rightarrow> (string \<times> string) list \<Rightarrow> nat
     \<Rightarrow> product list \<Rightarrow> string \<Rightarrow> nat \<Rightarrow> world \<Rightarrow> product list \<times> world" where
  "walk urljoin site_name category_name selectors max_pages products current_url page_count w =
     (if current_url \<noteq> [] \<and> page_count < max_pages then
        (case visit_page urljoin site_name category_name selectors products current_url
                (page_count + 1) w of
           Break products' w' \<Rightarrow> (products', w')
         | Next_page products' next_url w' \<Rightarrow>
             walk urljoin site_name category_name selectors max_pages products' next_url
               (page_count + 1) w')
      else (products, w))"
  by pat_completeness auto
termination
  by (relation "measure (\<lambda>(urljoin, site_name, category_name, selectors, max_pages,
                            products, current_url, page_count, w). max_pages - page_count)")
     auto

declare walk.simps [simp del]

text \<open>A site of \<open>self.diverse_sites\<close>. Each of them has the key \<open>selectors\<close>; a site without
  it is given \<open>self.selectors\<close> by \<open>site_config.get('selectors', self.selectors)\<close>.\<close>

record site_config =
  base_url :: string
  categories :: "(string \<times> string) list"
  site_selectors :: "(string \<times> string) list option"

text \<open>
  \<^verbatim>\<open>
  def scrape_site_category(self, site_name, site_config, category_name, category_path,
                           max_pages=10):
      base_url = site_config['base_url']
      url = base_url + category_path
      selectors = site_config.get('selectors', self.selectors)
      products = []
      current_url = url
      page_count = 0
      while ...
  \<close>
\<close>

definition selectors_for ::
  "(string \<times> string) list \<Rightarrow> site_config \<Rightarrow> (string \<times> string) list" where
  "selectors_for self_selectors config =
     (case site_selectors config of None \<Rightarrow> self_selectors | Some sels \<Rightarrow> sels)"

definition scrape_site_category ::
  "(string \<Rightarrow> string \<Rightarrow> string) \<Rightarrow> (string \<times> string) list \<Rightarrow> string \<Rightarrow> site_config \<Rightarrow> string
     \<Rightarrow> string \<Rightarrow> nat \<Rightarrow> world \<Rightarrow> product list \<times> world" where
  "scrape_site_category urljoin self_selectors site_name config category_name category_path
     max_pages w =
     walk urljoin site_name category_name (selectors_for self_selectors config)
       max_pages [] (base_url config @ category_path) 0 w"

subsection \<open>The aggregator\<close>

text \<open>The state of a run of \<open>scrape_all_diverse_sites\<close>: \<open>self.all_products\<close>, the counter
  \<open>total_products\<close>, and the state outside. \<open>returned\<close> is not a variable of the source: it
  observes the list that each call of \<open>scrape_site_category\<close> returned, in call order.\<close>

record run =
  all_products :: "product list"
  total_products :: nat
  returned :: "product list list"
  outside :: world

text \<open>
  \<^verbatim>\<open>
  for category_name, category_path in site_config['categories'].items():
      if total_products >= target_products:
          break
      try:
          category_products = self.scrape_site_category(
              site_name, site_config, category_name, category_path, max_pages=10)
          if category_products:
              self.all_products.extend(category_products)
              total_products += len(category_products)
          self._random_delay(2, 4)
      except Exception as e:
          continue
  \<close>
\<close>

fun scrape_categories ::
  "(string \<Rightarrow> string \<Rightarrow> string) \<Rightarrow> (string \<times> string) list \<Rightarrow> nat \<Rightarrow> string \<Rightarrow> site_config
     \<Rightarrow> (string \<times> string) list \<Rightarrow> run \<Rightarrow> run" where
  "scrape_categories urljoin self_selectors target_products site_name config [] st = st"
| "scrape_categories urljoin self_selectors target_products site_name config
     ((category_name, category_path) # rest) st =
     (if total_products st \<ge> target_products then st
      else
        (case scrape_site_category urljoin self_selectors site_name config category_name
                category_path 10 (outside st) of
           (category_products, w') \<Rightarrow>
             scrape_categories urljoin self_selectors target_products site_name config rest
               (st\<lparr>all_products :=
                      (if category_products \<noteq> [] then all_products st @ category_products
                       else all_products st),
                    total_products :=
                      (if category_products \<noteq> []
                       then total_products st + length category_products
                       else total_products st),
                    returned := returned st @ [category_products],
                    outside := random_delay 2 4 w'\<rparr>)))"

text \<open>
  \<^verbatim>\<open>
  for site_name, site_config in self.diverse_sites.items():
      if total_products >= target_products:
          break
      for category_name, category_path in site_config['categories'].items(): ...
  \<close>
\<close>

fun scrape_sites ::
  "(string \<Rightarrow> string \<Rightarrow> string) \<Rightarrow> (string \<times> string) list \<Rightarrow> nat
     \<Rightarrow> (string \<times> site_config) list \<Rightarrow> run \<Rightarrow> run" where
  "scrape_sites urljoin self_selectors target_products [] st = st"
| "scrape_sites urljoin self_selectors target_products ((site_name, config) # rest) st =
     (if total_products st \<ge> target_products then st
      else scrape_sites urljoin self_selectors target_products rest
             (scrape_categories urljoin self_selectors target_products site_name config
                (categories config) st))"

text \<open>\<open>scrape_all_diverse_sites(self, target_products=1000)\<close> on a scraper whose
  \<open>self.selectors\<close>, \<open>self.diverse_sites\<close> and \<open>self.all_products\<close> are the arguments; the
  source returns \<open>self.all_products\<close>, the field \<open>all_products\<close> of the result.\<close>

definition scrape_all_diverse_sites ::
  "(string \<Rightarrow> string \<Rightarrow> string) \<Rightarrow> (string \<times> string) list \<Rightarrow> (string \<times> site_config) list
     \<Rightarrow> product list \<Rightarrow> nat \<Rightarrow> world \<Rightarrow> run" where
  "scrape_all_diverse_sites urljoin self_selectors diverse_sites self_all_products
     target_products w =
     scrape_sites urljoin self_selectors target_products diverse_sites
       \<lparr>all_products = self_all_products, total_products = 0, returned = [], outside = w\<rparr>"

subsection \<open>The variant of \<open>agent_scraping/app_streamlit_scraping.py\<close>\<close>

text \<open>\<open>StreamlitDiverseScraper._extract_product_data\<close> has the body of the function above and
  returns the same values (price and rating as floats) with one more key:
  \<^verbatim>\<open>
  'source': category_name.split('_')[0] if '_' in category_name else category_name
  \<close>
  Its caller passes \<open>f"{site_name}_{category_name}"\<close> as \<open>category_name\<close>. The driver adds a
  batch with \<open>st.session_state.scraped_products.extend(products)\<close>.\<close>

record st_product = product +
  source :: string

definition source_label :: "string \<Rightarrow> string" where
  "source_label category_name =
     (if CHR ''_'' \<in> set category_name then takeWhile (\<lambda>c. c \<noteq> CHR ''_'') category_name
      else category_name)"

definition st_extract_product_data ::
  "(string \<Rightarrow> string \<Rightarrow> string) \<Rightarrow> element \<Rightarrow> string \<Rightarrow> string \<Rightarrow> (string \<times> string) list
     \<Rightarrow> world \<Rightarrow> st_product \<times> world" where
  "st_extract_product_data urljoin product_element category_name page_url selectors w =
     (case extract_product_data urljoin product_element category_name page_url selectors w of
        (p, w') \<Rightarrow>
          (\<lparr>titre = titre p, prix = prix p, disponibilite = disponibilite p,
            note_moyenne = note_moyenne p, description = description p,
            vendeur = vendeur p, categorie = categorie p, lien_produit = lien_produit p,
            source = source_label category_name\<rparr>, w'))"

definition st_extend :: "st_product list \<Rightarrow> st_product list \<Rightarrow> st_product list" where
  "st_extend scraped_products products = scraped_products @ products"

subsection \<open>Notions used in the statements\<close>

text \<open>The products and the state that an iteration of the loop leaves.\<close>

fun products_of :: "outcome \<Rightarrow> product list" where
  "products_of (Break products w) = products"
| "products_of (Next_page products next_url w) = products"

fun world_of :: "outcome \<Rightarrow> world" where
  "world_of (Break products w) = w"
| "world_of (Next_page products next_url w) = w"

text \<open>A JSON item on which \<open>create_product_from_json\<close> raises nothing: an object whose
  title (or name, when it has no title) and body (or title, when it has no body) are
  strings or absent, and whose id is absent or a number that \<open>float\<close> accepts.\<close>

definition plain_item :: "json \<Rightarrow> bool" where
  "plain_item item =
     (case item of
        JObj d \<Rightarrow>
          (case dict_get d ''title'' (dict_get d ''name'' (JStr [])) of
             JStr s \<Rightarrow> True | _ \<Rightarrow> False) \<and>
          (case dict_get d ''body'' (dict_get d ''title'' (JStr [])) of
             JStr s \<Rightarrow> True | _ \<Rightarrow> False) \<and>
          (case map_of d ''id'' of
             None \<Rightarrow> True
           | Some (JNum x) \<Rightarrow> \<bar>x\<bar> < float_limit
           | Some _ \<Rightarrow> False)
      | _ \<Rightarrow> False)"

text \<open>The title of the record of a plain item.\<close>

definition item_title :: "json \<Rightarrow> string" where
  "item_title item =
     (case item of
        JObj d \<Rightarrow>
          (case dict_get d ''title'' (dict_get d ''name'' (JStr [])) of
             JStr s \<Rightarrow>
               if clean_text (take 50 s) = [] then ''Digital Item'' else clean_text (take 50 s)
           | _ \<Rightarrow> [])
      | _ \<Rightarrow> [])"

subsection \<open>Example pages\<close>

text \<open>A state with no network and two random draws left.\<close>

definition offline :: world where
  "offline = \<lparr>net = (\<lambda>k url. None), gets = [], sleeps = [], rnd = [3, 1], page_log = []\<rparr>"

definition leaf :: "string \<Rightarrow> element" where
  "leaf t = Element t [] [] []"

text \<open>\<open>urljoin(base, ref)\<close> where \<open>ref\<close> is itself an absolute URL: the reference. The examples
  use such references only.\<close>

definition absolute_ref :: "string \<Rightarrow> string \<Rightarrow> string" where
  "absolute_ref base ref = ref"

text \<open>A container with no class of its own and one link, whose address has a parameter
  after a semicolon.\<close>

definition tea :: element where
  "tea = Element ''Tea'' [] []
           [(''a'', [Element ''Tea'' [(''href'', ''http://shop.test/tea;v=2'')] [] []])]"

text \<open>The selectors of the site \<open>webscraper_varied\<close> in \<open>self.diverse_sites\<close>, and a product card
  as that site serves them: the element of class \<open>ratings\<close> holds the number of reviews.\<close>

definition webscraper_selectors :: "(string \<times> string) list" where
  "webscraper_selectors =
     [(''product_container'', ''.thumbnail, .card, .product-item''),
      (''title'', ''.title, h4 a''),
      (''price'', ''.price''),
      (''rating'', ''.ratings''),
      (''description'', ''.description''),
      (''link'', ''a.title, h4 a''),
      (''pagination'', ''.pagination a, .next a'')]"

definition laptop :: element where
  "laptop =
     Element ''$295.99 Asus VivoBook 14 reviews'' [] [''thumbnail'']
       [(''.title, h4 a'',
           [Element ''Asus VivoBook'' [(''href'', ''https://webscraper.io/product/1'')]
              [''title''] []]),
        (''.price'', [leaf ''$295.99'']),
        (''.ratings'', [Element ''14 reviews'' [] [''ratings''] []]),
        (''a.title, h4 a'',
           [Element ''Asus VivoBook'' [(''href'', ''https://webscraper.io/product/1'')]
              [''title''] []])]"

text \<open>A shop of two pages, each linking to the other as its next page. The empty selector
  dictionary makes every \<open>selectors.get\<close> fall to its default.\<close>

definition coffee :: element where
  "coffee = Element ''Coffee 4.50'' [] [] [(''.price'', [leaf ''4.50''])]"

definition cocoa :: element where
  "cocoa = Element ''Cocoa'' [] [] []"

definition next_link :: "string \<Rightarrow> element" where
  "next_link href = Element ''next'' [(''href'', href)] [] []"

definition page_one :: response where
  "page_one =
     \<lparr>soup = Element [] [] []
               [(''.product'', [tea]),
                (''.pagination a'', [next_link ''http://shop.test/teas?page=2''])],
      json_body = None\<rparr>"

definition page_two :: response where
  "page_two =
     \<lparr>soup = Element [] [] []
               [(''.product'', [coffee]),
                (''.pagination a'', [next_link ''http://shop.test/teas''])],
      json_body = None\<rparr>"

definition cycle_net :: "nat \<Rightarrow> string \<Rightarrow> response option" where
  "cycle_net k url =
     (if url = ''http://shop.test/teas'' then Some page_one
      else if url = ''http://shop.test/teas?page=2'' then Some page_two
      else None)"

definition cycle_site :: world where
  "cycle_site = \<lparr>net = cycle_net, gets = [], sleeps = [], rnd = [], page_log = []\<rparr>"

definition shop_config :: site_config where
  "shop_config =
     \<lparr>base_url = ''http://shop.test'', categories = [(''teas'', ''/teas'')],
      site_selectors = Some []\<rparr>"

text \<open>A page without pagination on which \<open>.product\<close> matches nothing, \<open>article\<close> matches two
  elements and \<open>.item\<close> a third one.\<close>

definition fallback_page :: response where
  "fallback_page =
     \<lparr>soup = Element [] [] [] [(''article'', [tea, coffee]), (''.item'', [cocoa])],
      json_body = None\<rparr>"

definition fallback_site :: world where
  "fallback_site =
     \<lparr>net = (\<lambda>k url. if url = ''http://shop.test/teas'' then Some fallback_page else None),
      gets = [], sleeps = [], rnd = [], page_log = []\<rparr>"

text \<open>A network on which the first two requests of the run fail.\<close>

definition flaky_site :: world where
  "flaky_site =
     \<lparr>net = (\<lambda>k url. if k < 2 then None else Some fallback_page),
      gets = [], sleeps = [], rnd = [], page_log = []\<rparr>"

text \<open>A JSON endpoint that answers with a list of five objects, the third without title or
  name.\<close>

definition post :: "rat \<Rightarrow> string \<Rightarrow> json" where
  "post n t = JObj [(''userId'', JNum 1), (''id'', JNum n), (''title'', JStr t),
                    (''body'', JStr ''text'')]"

definition five_posts :: "json list" where
  "five_posts = [post 1 ''a'', post 2 ''b'', JObj [(''userId'', JNum 1), (''id'', JNum 3)],
                 post 4 ''d'', post 5 ''e'']"

definition posts_site :: world where
  "posts_site =
     \<lparr>net = (\<lambda>k url. if url = ''https://jsonplaceholder.typicode.com/posts''
                       then Some \<lparr>soup = Element [] [] [] [], json_body = Some (JList five_posts)\<rparr>
                       else None),
      gets = [], sleeps = [], rnd = [3, 1], page_log = []\<rparr>"

text \<open>\<open>self.selectors\<close>, which the site \<open>jsonplaceholder\<close> of \<open>self.diverse_sites\<close> uses.\<close>

definition generic_selectors :: "(string \<times> string) list" where
  "generic_selectors =
     [(''product_container'',
         ''.thumbnail, .product-wrapper, .card, .product-item, .item, article.product_pod, .product-grid, .item-container, li''),
      (''title'', ''.title, h4 a, .card-title, .product-title, h3 a, .name, h1, h2, h3, h4, h5''),
      (''price'',
         ''.price, .pull-right.price, .cost, .amount, .product-price, .price_color, span.price''),
      (''availability'', ''.stock, .availability, .in-stock, .status, .instock''),
      (''rating'', ''.ratings, .rating, .stars, .review, .score, .star-rating''),
      (''description'', ''.description, .card-text, .summary, .excerpt, p''),
      (''vendor'', ''.brand, .vendor, .seller, .manufacturer, .author''),
      (''category'', ''.category, .breadcrumb, .cat, .type''),
      (''link'', ''a.title, h4 a, h3 a, .product-link, a''),
      (''pagination'', ''.pagination a, a[rel=\"next\"], .next a, .page, a.page-link'')]"

definition jsonplaceholder_config :: site_config where
  "jsonplaceholder_config =
     \<lparr>base_url = ''https://jsonplaceholder.typicode.com'',
      categories = [(''posts'', ''/posts''), (''albums'', ''/albums''), (''photos'', ''/photos'')],
      site_selectors = Some generic_selectors\<rparr>"

text \<open>A card of the same site whose element of class \<open>ratings\<close> holds no digit.\<close>

definition tablet :: element where
  "tablet =
     Element ''$99.50 Lenovo Tab No reviews yet'' [] [''thumbnail'']
       [(''.title, h4 a'',
           [Element ''Lenovo Tab'' [(''href'', ''https://webscraper.io/product/2'')]
              [''title''] []]),
        (''.price'', [leaf ''$99.50'']),
        (''.ratings'', [Element ''No reviews yet'' [] [''ratings''] []])]"

section \<open>Properties\<close>

subsection \<open>Text cleaning\<close>

lemma set_collapse_ws: "set (collapse_ws s) \<subseteq> insert (CHR '' '') (set s)"
proof (induction s rule: collapse_ws.induct)
  case 1
  then show ?case by simp
next
  case (2 c cs)
  have "set (dropWhile is_space cs) \<subseteq> set cs"
    by (rule set_dropWhileD[THEN subsetI]) 
  with 2 show ?case by (auto split: if_splits)
qed

lemma set_strip: "set (strip s) \<subseteq> set s"
proof
  fix c assume "c \<in> set (strip s)"
  then have "c \<in> set (dropWhile is_space (rev (dropWhile is_space s)))"
    by (simp add: strip_def)
  then have "c \<in> set (rev (dropWhile is_space s))" by (rule set_dropWhileD)
  then have "c \<in> set (dropWhile is_space s)" by simp
  then show "c \<in> set s" by (rule set_dropWhileD)
qed

lemma set_replace_char: "set (replace_char a b s) \<subseteq> insert b (set s - {a})"
  by (auto simp: replace_char_def)

lemma set_clean_text:
  "set (clean_text s) \<subseteq> {CHR '' '', CHR '',''} \<union> (set s - {CHR '';'', CHR 0x0A, CHR 0x0D})"
proof
  fix c assume c: "c \<in> set (clean_text s)"
  then have ne: "s \<noteq> []" by (auto simp: clean_text_def)
  let ?a = "collapse_ws (strip s)"
  let ?b = "replace_char (CHR '';'') (CHR '','') ?a"
  let ?c = "replace_char (CHR 0x0A) (CHR '' '') ?b"
  let ?d = "replace_char (CHR 0x0D) (CHR '' '') ?c"
  from c ne have "c \<in> set (take 300 ?d)" by (simp add: clean_text_def)
  then have d: "c \<in> set ?d" by (rule in_set_takeD)
  then have 1: "c = CHR '' '' \<or> (c \<in> set ?c \<and> c \<noteq> CHR 0x0D)"
    using set_replace_char[of "CHR 0x0D" "CHR '' ''" ?c] by blast
  have 2: "c \<in> set ?c \<Longrightarrow> c = CHR '' '' \<or> (c \<in> set ?b \<and> c \<noteq> CHR 0x0A)"
    using set_replace_char[of "CHR 0x0A" "CHR '' ''" ?b] by blast
  have 3: "c \<in> set ?b \<Longrightarrow> c = CHR '','' \<or> (c \<in> set ?a \<and> c \<noteq> CHR '';'')"
    using set_replace_char[of "CHR '';''" "CHR '',''" ?a] by blast
  have 4: "c \<in> set ?a \<Longrightarrow> c = CHR '' '' \<or> c \<in> set s"
    using set_collapse_ws[of "strip s"] set_strip[of s] by blast
  from 1 2 3 4 show "c \<in> {CHR '' '', CHR '',''} \<union> (set s - {CHR '';'', CHR 0x0A, CHR 0x0D})"
    by blast
qed

lemma length_clean_text: "length (clean_text s) \<le> 300"
  by (simp add: clean_text_def)

lemma clean_text_no_semicolon: "CHR '';'' \<notin> set (clean_text s)"
  using set_clean_text[of s] by auto

lemma search_number_None: "(\<forall>c\<in>set s. \<not> is_digit_or_comma c) \<Longrightarrow> search_number s = None"
  by (induction s) auto

lemma random_choice_in: "xs \<noteq> [] \<Longrightarrow> fst (random_choice xs w) \<in> set xs"
  by (simp add: random_choice_def split: prod.splits)

lemma price_defaults_ne: "price_defaults \<noteq> []"
  by (simp add: price_defaults_def)

lemma no_digit_price:
  assumes "\<forall>c\<in>set t. \<not> is_digit c"
  shows "search_number (remove_char (CHR '','') (clean_text t)) = None"
proof (rule search_number_None, rule ballI)
  fix c assume c: "c \<in> set (remove_char (CHR '','') (clean_text t))"
  then have "c \<noteq> CHR '',''" and "c \<in> set (clean_text t)"
    by (auto simp: remove_char_def)
  with set_clean_text[of t] have "c = CHR '' '' \<or> c \<in> set t" by auto
  with assms \<open>c \<noteq> CHR '',''\<close> show "\<not> is_digit_or_comma c"
    by (auto simp: is_digit_or_comma_def is_digit_def)
qed

lemma price_example: "get_text e = ''Price: 1,234.50'' \<Longrightarrow> extract_price (Some e) w = (1234.5, w)"
  by (simp add: extract_price_def clean_text_def strip_def is_space_def whitespace_def replace_char_def
      remove_char_def match_number_def is_digit_or_comma_def is_digit_def py_float_def digits_val_def digit_val_def)

text \<open>
  C4. The price of an element whose text is "Price: 1,234.50" is 1234.50, whatever the
  random draws; the price of an element whose text has no digit, and the price of a missing
  element, is one of 19.99, 29.99, 49.99, 79.99, 99.99. \<open>extract_price\<close> is a total function
  to numbers: it has no exception and no absent result.
\<close>

theorem extract_price_spec:
  "(get_text e = ''Price: 1,234.50'' \<longrightarrow> extract_price (Some e) w = (1234.50, w)) \<and>
   ((\<forall>c\<in>set (get_text e). \<not> is_digit c) \<longrightarrow>
      fst (extract_price (Some e) w) \<in> set price_defaults) \<and>
   fst (extract_price None w) \<in> set price_defaults"
proof (intro conjI impI)
  assume "get_text e = ''Price: 1,234.50''"
  then show "extract_price (Some e) w = (1234.50, w)" using price_example by simp
next
  assume "\<forall>c\<in>set (get_text e). \<not> is_digit c"
  then have "search_number (remove_char (CHR '','') (clean_text (get_text e))) = None"
    by (rule no_digit_price)
  then show "fst (extract_price (Some e) w) \<in> set price_defaults"
    by (simp add: extract_price_def random_choice_in price_defaults_ne)
next
  show "fst (extract_price None w) \<in> set price_defaults"
    by (simp add: extract_price_def random_choice_in price_defaults_ne)
qed

theorem extract_price_spec_witness:
  "extract_price (Some (leaf ''Price: 1,234.50'')) offline = (1234.50, offline) \<and>
   fst (extract_price (Some (leaf ''Contact us'')) offline) \<in> set price_defaults \<and>
   fst (extract_price None offline) \<in> set price_defaults"
  using extract_price_spec [of "leaf ''Price: 1,234.50''" offline]
        extract_price_spec [of "leaf ''Contact us''" offline]
  by (simp add: leaf_def is_digit_def)

subsection \<open>The fields that are cleaned\<close>

lemma clean_text_no_lf: "CHR 0x0A \<notin> set (clean_text s)"
  using set_clean_text[of s] by auto

lemma clean_text_no_cr: "CHR 0x0D \<notin> set (clean_text s)"
  using set_clean_text[of s] by auto

lemma extract_title_clean: "\<exists>t. extract_title e sels = clean_text t"
  unfolding extract_title_def Let_def
  by (auto split: option.splits)

lemma titre_extract: "titre (fst (extract_product_data uj e cat url sels w)) = extract_title e sels"
  by (simp add: extract_product_data_def Let_def split: prod.splits)

lemma vendeur_extract: "\<exists>t. vendeur (fst (extract_product_data uj e cat url sels w)) = clean_text t"
  by (simp add: extract_product_data_def Let_def split: prod.splits) blast

lemma description_extract:
  "\<exists>t. description (fst (extract_product_data uj e cat url sels w)) = clean_text t \<or>
       description (fst (extract_product_data uj e cat url sels w)) = take 200 (clean_text t) @ ''...''"
  by (simp add: extract_product_data_def Let_def split: prod.splits) blast

text \<open>
  C10, as amended. For every string \<open>s\<close>, \<open>clean_text s\<close> has at most 300 characters and
  holds no semicolon, no line feed and no carriage return. The title, the description and
  the vendor of a record of the markup path are results of \<open>clean_text\<close> (the description
  possibly cut to 200 characters and followed by three dots), so they hold no semicolon.
  Nothing is said of the link, which is not cleaned.
\<close>

theorem clean_text_fields:
  "length (clean_text s) \<le> 300 \<and> CHR '';'' \<notin> set (clean_text s) \<and>
   CHR 0x0A \<notin> set (clean_text s) \<and> CHR 0x0D \<notin> set (clean_text s) \<and>
   CHR '';'' \<notin> set (titre (fst (extract_product_data urljoin e cat url sels w))) \<and>
   CHR '';'' \<notin> set (description (fst (extract_product_data urljoin e cat url sels w))) \<and>
   CHR '';'' \<notin> set (vendeur (fst (extract_product_data urljoin e cat url sels w)))"
proof -
  have t: "CHR '';'' \<notin> set (titre (fst (extract_product_data urljoin e cat url sels w)))"
    using extract_title_clean[of e sels] clean_text_no_semicolon by (auto simp: titre_extract)
  have v: "CHR '';'' \<notin> set (vendeur (fst (extract_product_data urljoin e cat url sels w)))"
    using vendeur_extract[of urljoin e cat url sels w] clean_text_no_semicolon by auto
  obtain d where d: "description (fst (extract_product_data urljoin e cat url sels w)) = clean_text d \<or>
       description (fst (extract_product_data urljoin e cat url sels w)) = take 200 (clean_text d) @ ''...''"
    using description_extract by blast
  have "CHR '';'' \<notin> set (take 200 (clean_text d) @ ''...'')"
    using clean_text_no_semicolon[of d] by (auto dest: in_set_takeD)
  with d clean_text_no_semicolon[of d]
  have de: "CHR '';'' \<notin> set (description (fst (extract_product_data urljoin e cat url sels w)))"
    by auto
  show ?thesis
    using t v de length_clean_text clean_text_no_semicolon clean_text_no_lf clean_text_no_cr by simp
qed

theorem clean_text_fields_witness:
  "length (clean_text ''a ;  b'') \<le> 300 \<and> CHR '';'' \<notin> set (clean_text ''a ;  b'') \<and>
   CHR 0x0A \<notin> set (clean_text ''a ;  b'') \<and> CHR 0x0D \<notin> set (clean_text ''a ;  b'') \<and>
   CHR '';'' \<notin> set (titre (fst (extract_product_data absolute_ref tea ''shop_tea''
      ''http://shop.test/teas'' [] offline))) \<and>
   CHR '';'' \<notin> set (description (fst (extract_product_data absolute_ref tea ''shop_tea''
      ''http://shop.test/teas'' [] offline))) \<and>
   CHR '';'' \<notin> set (vendeur (fst (extract_product_data absolute_ref tea ''shop_tea''
      ''http://shop.test/teas'' [] offline)))"
  using clean_text_fields [of "''a ;  b''" absolute_ref tea "''shop_tea''"
      "''http://shop.test/teas''" "[]" offline]
  by simp

text \<open>
  C10 as it was stated fails: the link of a record is \<open>urljoin\<close> of the \<open>href\<close> as found, and
  the record of the container \<open>tea\<close> has a semicolon in it.
\<close>

theorem link_keeps_semicolon:
  "CHR '';'' \<in> set (lien_produit (fst (extract_product_data absolute_ref tea ''shop_tea''
      ''http://shop.test/teas'' [] offline)))"
  by code_simp

subsection \<open>The page log of a crawl\<close>

lemma page_log_next_draw [simp]: "page_log (snd (next_draw w)) = page_log w"
  by (simp add: next_draw_def split: list.splits)

lemma page_log_random_choice [simp]: "page_log (snd (random_choice xs w)) = page_log w"
  by (simp add: random_choice_def split: prod.splits)
     (metis page_log_next_draw snd_conv)

lemma page_log_random_uniform [simp]: "page_log (snd (random_uniform a b w)) = page_log w"
  by (simp add: random_uniform_def split: prod.splits)
     (metis page_log_next_draw snd_conv)

lemma page_log_time_sleep [simp]: "page_log (time_sleep s w) = page_log w"
  by (simp add: time_sleep_def)

lemma page_log_random_delay [simp]: "page_log (random_delay a b w) = page_log w"
  by (simp add: random_delay_def split: prod.splits)
     (metis page_log_random_uniform snd_conv)

lemma page_log_requests_get [simp]: "page_log (snd (requests_get url w)) = page_log w"
  by (simp add: requests_get_def)

lemma page_log_attempts [simp]: "page_log (snd (attempts url retries attempt w)) = page_log w"
proof (induction url retries attempt w rule: attempts.induct)
  case (1 url retries attempt w)
  show ?case
  proof (cases "attempt < retries")
    case False
    then show ?thesis by (subst attempts.simps) simp
  next
    case True
    show ?thesis
    proof (cases "fst (requests_get url w)")
      case None
      with True 1 show ?thesis by (subst attempts.simps) simp
    next
      case (Some r)
      with True show ?thesis by (subst attempts.simps) simp
    qed
  qed
qed

lemma page_log_make_request [simp]: "page_log (snd (make_request url retries w)) = page_log w"
  by (simp add: make_request_def)

lemma page_log_extract_price [simp]: "page_log (snd (extract_price e w)) = page_log w"
  by (simp add: extract_price_def Let_def split: option.splits)

lemma page_log_extract_rating [simp]: "page_log (snd (extract_rating e w)) = page_log w"
  by (auto simp: extract_rating_def Let_def split: option.splits prod.splits)
     (metis page_log_extract_price page_log_random_choice snd_conv)+

lemma page_log_extract_product_data [simp]:
  "page_log (snd (extract_product_data uj e cat url sels w)) = page_log w"
  by (auto simp: extract_product_data_def Let_def split: prod.splits)
     (metis page_log_extract_price page_log_extract_rating snd_conv)

lemma page_log_extract_all [simp]:
  "page_log (snd (extract_all uj cat url sels es ps w)) = page_log w"
proof (induction es arbitrary: ps w)
  case Nil
  then show ?case by simp
next
  case (Cons e es)
  obtain p w' where p: "extract_product_data uj e cat url sels w = (p, w')"
    by (cases "extract_product_data uj e cat url sels w")
  then have "page_log w' = page_log w"
    using page_log_extract_product_data[of uj e cat url sels w] by simp
  with Cons p show ?case by simp
qed

lemma page_log_create [simp]:
  "page_log (snd (create_product_from_json item cat url w)) = page_log w"
proof -
  have u: "\<And>a b u w1. random_uniform a b w = (u, w1) \<Longrightarrow> page_log w1 = page_log w"
    by (metis page_log_random_uniform snd_conv)
  have c: "\<And>xs (x::string) w1 w2. random_choice xs w1 = (x, w2) \<Longrightarrow> page_log w2 = page_log w1"
    by (metis page_log_random_choice snd_conv)
  have c': "\<And>xs (x::rat) w1 w2. random_choice xs w1 = (x, w2) \<Longrightarrow> page_log w2 = page_log w1"
    by (metis page_log_random_choice snd_conv)
  show ?thesis
    by (auto simp: create_product_from_json_def Let_def
        split: json.splits sum.splits prod.splits option.splits dest!: u c c')
qed

lemma page_log_json_items [simp]:
  "page_log (snd (json_items cat url items ps w)) = page_log w"
proof (induction items arbitrary: ps w)
  case Nil
  then show ?case by simp
next
  case (Cons item items)
  obtain r w' where r: "create_product_from_json item cat url w = (r, w')"
    by (cases "create_product_from_json item cat url w")
  then have "page_log w' = page_log w"
    using page_log_create[of item cat url w] by simp
  with Cons r show ?case by (cases r) simp_all
qed

lemma page_log_json_page [simp]:
  "page_log (snd (json_page cat url resp ps w)) = page_log w"
  by (simp add: json_page_def del: json_items.simps split: option.splits json.splits)

lemma page_log_visit_page:
  "page_log (world_of (visit_page uj site cat sels ps url n w)) = page_log w @ [(n, url)]"
proof -
  let ?w0 = "w\<lparr>page_log := page_log w @ [(n, url)]\<rparr>"
  obtain r w1 where r: "make_request url 3 ?w0 = (r, w1)"
    by (cases "make_request url 3 ?w0")
  then have w1: "page_log w1 = page_log w @ [(n, url)]"
    using page_log_make_request[of url 3 ?w0] by simp
  have j: "\<And>resp ps' w2. json_page cat url resp ps w1 = (ps', w2) \<Longrightarrow> page_log w2 = page_log w1"
    by (metis page_log_json_page snd_conv)
  have e: "\<And>name es ps' w2. extract_all uj name url sels es ps w1 = (ps', w2)
             \<Longrightarrow> page_log w2 = page_log w1"
    by (metis page_log_extract_all snd_conv)
  show ?thesis
    using r w1
    by (auto simp: visit_page_def Let_def split: option.splits prod.splits dest!: j e)
qed

lemma visit_page_Next:
  "visit_page uj site cat sels ps url n w = Next_page ps' u w' \<Longrightarrow> u \<noteq> url \<and> u \<noteq> []"
  by (auto simp: visit_page_def Let_def split: option.splits prod.splits if_splits)

lemma walk_stop:
  "url = [] \<or> \<not> pc < max_pages \<Longrightarrow> walk uj site cat sels max_pages ps url pc w = (ps, w)"
  by (subst walk.simps) auto

lemma walk_step:
  "url \<noteq> [] \<Longrightarrow> pc < max_pages \<Longrightarrow>
   walk uj site cat sels max_pages ps url pc w =
     (case visit_page uj site cat sels ps url (pc + 1) w of
        Break ps' w' \<Rightarrow> (ps', w')
      | Next_page ps' u w' \<Rightarrow> walk uj site cat sels max_pages ps' u (pc + 1) w')"
  by (subst walk.simps) simp

lemma walk_page_log:
  "\<exists>L. page_log (snd (walk uj site cat sels max_pages ps url pc w)) = page_log w @ L \<and>
       length L \<le> max_pages - pc \<and>
       map fst L = [Suc pc ..< Suc pc + length L] \<and>
       distinct_adj (map snd L) \<and>
       (L \<noteq> [] \<longrightarrow> snd (hd L) = url)"
proof (induction uj site cat sels max_pages ps url pc w rule: walk.induct)
  case (1 uj site cat sels max_pages ps url pc w)
  show ?case
  proof (cases "url \<noteq> [] \<and> pc < max_pages")
    case False
    then have "walk uj site cat sels max_pages ps url pc w = (ps, w)"
      by (intro walk_stop) auto
    then show ?thesis by simp
  next
    case True
    show ?thesis
    proof (cases "visit_page uj site cat sels ps url (pc + 1) w")
      case (Break ps' w')
      with True have "walk uj site cat sels max_pages ps url pc w = (ps', w')"
        by (simp add: walk_step)
      moreover have "page_log w' = page_log w @ [(pc + 1, url)]"
        using page_log_visit_page[of uj site cat sels ps url "pc + 1" w] Break by simp
      ultimately show ?thesis using True by auto
    next
      case (Next_page ps' u w')
      with True have eq: "walk uj site cat sels max_pages ps url pc w
                          = walk uj site cat sels max_pages ps' u (pc + 1) w'"
        by (simp add: walk_step)
      have log: "page_log w' = page_log w @ [(pc + 1, url)]"
        using page_log_visit_page[of uj site cat sels ps url "pc + 1" w] Next_page by simp
      have ne: "u \<noteq> url" using visit_page_Next[OF Next_page] by simp
      from "1.IH"[OF True Next_page] obtain L where
        L: "page_log (snd (walk uj site cat sels max_pages ps' u (pc + 1) w')) = page_log w' @ L"
           "length L \<le> max_pages - (pc + 1)"
           "map fst L = [Suc (pc + 1) ..< Suc (pc + 1) + length L]"
           "distinct_adj (map snd L)"
           "L \<noteq> [] \<longrightarrow> snd (hd L) = u"
        by blast
      let ?L = "(pc + 1, url) # L"
      have 1: "page_log (snd (walk uj site cat sels max_pages ps url pc w)) = page_log w @ ?L"
        using eq L(1) log by simp
      have 2: "length ?L \<le> max_pages - pc" using L(2) True by auto
      have 3: "map fst ?L = [Suc pc ..< Suc pc + length ?L]"
      proof -
        have "[Suc pc ..< Suc pc + length ?L] = Suc pc # [Suc (Suc pc) ..< Suc pc + length ?L]"
          by (rule upt_conv_Cons) simp
        moreover have "Suc pc + length ?L = Suc (pc + 1) + length L" by simp
        ultimately have "[Suc pc ..< Suc pc + length ?L] = Suc pc # map fst L"
          using L(3) by (simp only: Suc_eq_plus1)
        then show ?thesis by (simp only: list.map fst_conv Suc_eq_plus1)
      qed
      have 4: "distinct_adj (map snd ?L)"
        using L(4) L(5) ne by (cases L) (auto simp: distinct_adj_Cons)
      have 5: "?L \<noteq> [] \<longrightarrow> snd (hd ?L) = url" by simp
      from 1 2 3 4 5 show ?thesis by blast
    qed
  qed
qed

subsection \<open>Evaluating the examples\<close>

lemmas example_defs =
  absolute_ref_def tea_def coffee_def cocoa_def leaf_def next_link_def page_one_def page_two_def
  cycle_net_def cycle_site_def shop_config_def fallback_page_def fallback_site_def flaky_site_def
  offline_def laptop_def webscraper_selectors_def post_def five_posts_def posts_site_def
  jsonplaceholder_config_def

lemmas eval_defs =
  visit_page_def make_request_def attempts.simps requests_get_def find_product_elements_def
  alt_selectors_def select_def select_one_def dict_get_def extract_product_data_def
  extract_title_def extract_price_def extract_rating_def classify_availability_def
  clean_text_def strip_def is_space_def whitespace_def replace_char_def remove_char_def
  match_number_def is_digit_or_comma_def is_digit_def py_float_def digits_val_def digit_val_def
  random_choice_def next_draw_def random_uniform_def random_delay_def time_sleep_def
  get_next_page_url_def next_words_def lower_def lower_char_def price_defaults_def
  rating_defaults_def py_title_def is_cased_def title_char_def Let_def char_of_def
  bit_Suc_0_iff scrape_site_category_def selectors_for_def json_page_def
  create_product_from_json_def py_round2_def rating_map_def float_limit_def

lemma visit_page_one:
  "visit_page absolute_ref ''shop'' ''teas'' [] [] ''http://shop.test/teas'' 1 cycle_site =
   Next_page
     [\<lparr>titre = ''Tea'', prix = 19.99, disponibilite = ''Disponible'', note_moyenne = 3,
        description = [], vendeur = ''N/A'', categorie = ''Shop Teas'',
        lien_produit = ''http://shop.test/tea;v=2''\<rparr>]
     ''http://shop.test/teas?page=2''
     (cycle_site\<lparr>gets := [''http://shop.test/teas''], sleeps := [1],
                  page_log := [(1, ''http://shop.test/teas'')]\<rparr>)"
  by (simp add: eval_defs example_defs)

lemma fetch_page_one:
  "make_request ''http://shop.test/teas'' 3
     (cycle_site\<lparr>page_log := [(1, ''http://shop.test/teas'')]\<rparr>)
   = (Some page_one, cycle_site\<lparr>gets := [''http://shop.test/teas''],
                                 page_log := [(1, ''http://shop.test/teas'')]\<rparr>)"
  by (simp add: make_request_def attempts.simps requests_get_def cycle_site_def cycle_net_def)

lemma page_one_elements: "find_product_elements (soup page_one) [] = [tea]"
  by (simp add: find_product_elements_def select_def dict_get_def page_one_def)

lemma page_one_next:
  "get_next_page_url absolute_ref (soup page_one) ''http://shop.test/teas'' []
   = Some ''http://shop.test/teas?page=2''"
  by (simp add: eval_defs example_defs)

lemma shop_url: "base_url shop_config @ ''/teas'' = ''http://shop.test/teas''"
  by (simp add: shop_config_def)

lemma shop_selectors: "selectors_for generic_selectors shop_config = []"
  by (simp add: selectors_for_def shop_config_def)

lemma cycle_site_log: "page_log cycle_site = []"
  by (simp add: cycle_site_def)

subsection \<open>Pagination\<close>

text \<open>
  C2 as it was stated fails: the walker keeps no set of visited URLs. On the shop of two
  pages whose second page links back to the first, a crawl with the page cap 10 (the one
  that \<open>scrape_all_diverse_sites\<close> passes) fetches the first page again after the second,
  and goes on alternating until the cap.
\<close>

theorem cycle_refetches_page_one:
  "map snd (page_log (snd (scrape_site_category absolute_ref generic_selectors ''shop''
      shop_config ''teas'' ''/teas'' 10 cycle_site)))
   = [''http://shop.test/teas'', ''http://shop.test/teas?page=2'',
      ''http://shop.test/teas'', ''http://shop.test/teas?page=2'',
      ''http://shop.test/teas'', ''http://shop.test/teas?page=2'',
      ''http://shop.test/teas'', ''http://shop.test/teas?page=2'',
      ''http://shop.test/teas'', ''http://shop.test/teas?page=2'']"
  by (simp add: walk.simps eval_defs example_defs)

text \<open>
  C2, as amended. The pages that one category crawl fetches are numbered 1, 2, ... without
  a gap, there are at most \<open>max_pages\<close> of them, the first one is the category URL, and no
  page is fetched twice in a row: the loop goes on to a next URL only when that URL is
  neither empty nor the current one.
\<close>

theorem walker_trace:
  "(\<exists>L. page_log (snd (scrape_site_category urljoin self_selectors site_name config
            category_name category_path max_pages w)) = page_log w @ L \<and>
       length L \<le> max_pages \<and>
       map fst L = [1 ..< Suc (length L)] \<and>
       distinct_adj (map snd L) \<and>
       (L \<noteq> [] \<longrightarrow> snd (hd L) = base_url config @ category_path)) \<and>
   (visit_page urljoin site_name category_name selectors products current_url page_count w
      = Next_page products' next_url w' \<longrightarrow> next_url \<noteq> current_url \<and> next_url \<noteq> [])"
  using walk_page_log [of urljoin site_name category_name
      "selectors_for self_selectors config"
      max_pages "[]" "base_url config @ category_path" 0 w]
    visit_page_Next [of urljoin site_name category_name selectors products current_url
      page_count w products' next_url w']
  by (simp add: scrape_site_category_def)

theorem walker_trace_witness:
  "length (page_log (snd (scrape_site_category absolute_ref generic_selectors ''shop''
      shop_config ''teas'' ''/teas'' 10 cycle_site))) \<le> 10 \<and>
   distinct_adj (map snd (page_log (snd (scrape_site_category absolute_ref generic_selectors
      ''shop'' shop_config ''teas'' ''/teas'' 10 cycle_site)))) \<and>
   ''http://shop.test/teas?page=2'' \<noteq> ''http://shop.test/teas''"
  using walker_trace [where urljoin = absolute_ref and self_selectors = generic_selectors
      and site_name = "''shop''" and config = shop_config and category_name = "''teas''"
      and category_path = "''/teas''" and max_pages = 10 and w = cycle_site
      and selectors = "[]" and products = "[]" and current_url = "''http://shop.test/teas''"
      and page_count = 1
      and products' = "[\<lparr>titre = ''Tea'', prix = 19.99, disponibilite = ''Disponible'',
        note_moyenne = 3, description = [], vendeur = ''N/A'', categorie = ''Shop Teas'',
        lien_produit = ''http://shop.test/tea;v=2''\<rparr>]"
      and next_url = "''http://shop.test/teas?page=2''"
      and w' = "cycle_site\<lparr>gets := [''http://shop.test/teas''], sleeps := [1],
                  page_log := [(1, ''http://shop.test/teas'')]\<rparr>"]
    visit_page_one
  by (auto simp: cycle_site_def)

lemma visit_page_markup:
  assumes "\<not> contains ''jsonplaceholder'' site"
    and "make_request url 3 (w\<lparr>page_log := page_log w @ [(n, url)]\<rparr>) = (Some resp, w1)"
    and "find_product_elements (soup resp) sels \<noteq> []"
  shows "products_of (visit_page uj site cat sels ps url n w) =
         fst (extract_all uj (site @ ''_'' @ cat) url sels
                (find_product_elements (soup resp) sels) ps w1)"
  using assms
  by (auto simp: visit_page_def Let_def split: prod.splits option.splits)

lemma walk_one_page:
  "url \<noteq> [] \<Longrightarrow> walk uj site cat sels 1 ps url 0 w =
     (products_of (visit_page uj site cat sels ps url 1 w),
      world_of (visit_page uj site cat sels ps url 1 w))"
  by (cases "visit_page uj site cat sels ps url 1 w")
     (simp_all add: walk_step walk_stop)

text \<open>
  C5. With the page cap 1 and a category URL that is not empty, \<open>scrape_site_category\<close>
  logs and fetches exactly one page, the first, and returns what the visit of that page
  collected: on a markup site whose page was fetched and holds containers, the records
  extracted from those containers, whether or not the page has a next link. For every cap
  the crawl returns, and no page number exceeds the cap.
\<close>

theorem page_cap_one:
  assumes "base_url config @ category_path \<noteq> []"
  shows
    "page_log (snd (scrape_site_category urljoin self_selectors site_name config category_name
        category_path 1 w)) = page_log w @ [(1, base_url config @ category_path)] \<and>
     fst (scrape_site_category urljoin self_selectors site_name config category_name
        category_path 1 w)
       = products_of (visit_page urljoin site_name category_name
           (selectors_for self_selectors config) [] (base_url config @ category_path) 1 w) \<and>
     (\<not> contains ''jsonplaceholder'' site_name \<and>
      make_request (base_url config @ category_path) 3
        (w\<lparr>page_log := page_log w @ [(1, base_url config @ category_path)]\<rparr>) = (Some resp, w1) \<and>
      find_product_elements (soup resp) (selectors_for self_selectors config) \<noteq> [] \<longrightarrow>
      fst (scrape_site_category urljoin self_selectors site_name config category_name
        category_path 1 w)
        = fst (extract_all urljoin (site_name @ ''_'' @ category_name)
                (base_url config @ category_path) (selectors_for self_selectors config)
                (find_product_elements (soup resp) (selectors_for self_selectors config)) [] w1)) \<and>
     (\<exists>L. page_log (snd (scrape_site_category urljoin self_selectors site_name config
              category_name category_path max_pages w)) = page_log w @ L \<and>
          length L \<le> max_pages \<and> (\<forall>p\<in>set L. fst p \<le> max_pages))"
proof -
  let ?url = "base_url config @ category_path"
  let ?sels = "selectors_for self_selectors config"
  have w1: "walk urljoin site_name category_name ?sels 1 [] ?url 0 w =
     (products_of (visit_page urljoin site_name category_name ?sels [] ?url 1 w),
      world_of (visit_page urljoin site_name category_name ?sels [] ?url 1 w))"
    using assms by (rule walk_one_page)
  have a: "page_log (snd (scrape_site_category urljoin self_selectors site_name config
        category_name category_path 1 w)) = page_log w @ [(1, ?url)]"
    by (simp only: scrape_site_category_def w1 snd_conv page_log_visit_page)
  have b: "fst (scrape_site_category urljoin self_selectors site_name config category_name
        category_path 1 w)
       = products_of (visit_page urljoin site_name category_name ?sels [] ?url 1 w)"
    by (simp only: scrape_site_category_def w1 fst_conv)
  have c: "\<not> contains ''jsonplaceholder'' site_name \<and>
      make_request ?url 3 (w\<lparr>page_log := page_log w @ [(1, ?url)]\<rparr>) = (Some resp, w1) \<and>
      find_product_elements (soup resp) ?sels \<noteq> [] \<longrightarrow>
      fst (scrape_site_category urljoin self_selectors site_name config category_name
        category_path 1 w)
        = fst (extract_all urljoin (site_name @ ''_'' @ category_name) ?url ?sels
                (find_product_elements (soup resp) ?sels) [] w1)"
    using b visit_page_markup[of site_name ?url w 1 resp w1 ?sels urljoin category_name "[]"]
    by simp
  obtain L where L: "page_log (snd (walk urljoin site_name category_name ?sels max_pages []
        ?url 0 w)) = page_log w @ L" "length L \<le> max_pages - 0"
       "map fst L = [Suc 0 ..< Suc 0 + length L]"
    using walk_page_log[of urljoin site_name category_name ?sels max_pages "[]" ?url 0 w]
    by blast
  have "\<forall>p\<in>set L. fst p \<le> max_pages"
  proof
    fix p assume "p \<in> set L"
    then have "fst p \<in> set (map fst L)" by simp
    then have "fst p \<in> set [Suc 0 ..< Suc 0 + length L]" using L(3) by simp
    then show "fst p \<le> max_pages" using L(2) by auto
  qed
  with L have d: "\<exists>L. page_log (snd (scrape_site_category urljoin self_selectors site_name
        config category_name category_path max_pages w)) = page_log w @ L \<and>
          length L \<le> max_pages \<and> (\<forall>p\<in>set L. fst p \<le> max_pages)"
    by (auto simp: scrape_site_category_def)
  from a b c d show ?thesis by blast
qed

theorem page_cap_one_witness:
  "page_log (snd (scrape_site_category absolute_ref generic_selectors ''shop'' shop_config
      ''teas'' ''/teas'' 1 cycle_site)) = [(1, ''http://shop.test/teas'')] \<and>
   map titre (fst (scrape_site_category absolute_ref generic_selectors ''shop'' shop_config
      ''teas'' ''/teas'' 1 cycle_site)) = [''Tea''] \<and>
   fst (scrape_site_category absolute_ref generic_selectors ''shop'' shop_config
      ''teas'' ''/teas'' 1 cycle_site)
     = fst (extract_all absolute_ref ''shop_teas'' ''http://shop.test/teas'' [] [tea] []
              (cycle_site\<lparr>gets := [''http://shop.test/teas''],
                           page_log := [(1, ''http://shop.test/teas'')]\<rparr>)) \<and>
   get_next_page_url absolute_ref (soup page_one) ''http://shop.test/teas'' []
     = Some ''http://shop.test/teas?page=2''"
proof -
  have h: "base_url shop_config @ ''/teas'' \<noteq> []" by (simp add: shop_url)
  note t = page_cap_one [OF h, where urljoin = absolute_ref
      and self_selectors = generic_selectors
      and site_name = "''shop''" and category_name = "''teas''" and w = cycle_site
      and resp = page_one
      and ?w1.0 = "cycle_site\<lparr>gets := [''http://shop.test/teas''],
                              page_log := [(1, ''http://shop.test/teas'')]\<rparr>"
      and max_pages = 1, unfolded shop_url shop_selectors cycle_site_log append_Nil]
  from t have a: "page_log (snd (scrape_site_category absolute_ref generic_selectors ''shop''
      shop_config ''teas'' ''/teas'' 1 cycle_site)) = [(1, ''http://shop.test/teas'')]"
    by blast
  from t have "fst (scrape_site_category absolute_ref generic_selectors ''shop'' shop_config
      ''teas'' ''/teas'' 1 cycle_site)
       = products_of (visit_page absolute_ref ''shop'' ''teas'' [] []
           ''http://shop.test/teas'' 1 cycle_site)"
    by blast
  then have b: "map titre (fst (scrape_site_category absolute_ref generic_selectors ''shop''
      shop_config ''teas'' ''/teas'' 1 cycle_site)) = [''Tea'']"
    by (simp only: visit_page_one products_of.simps) simp
  have n: "\<not> contains ''jsonplaceholder'' ''shop''" by simp
  have e: "find_product_elements (soup page_one) [] \<noteq> []" by (simp add: page_one_elements)
  from t n fetch_page_one e
  have "fst (scrape_site_category absolute_ref generic_selectors ''shop'' shop_config
      ''teas'' ''/teas'' 1 cycle_site)
     = fst (extract_all absolute_ref (''shop'' @ ''_'' @ ''teas'') ''http://shop.test/teas'' []
              (find_product_elements (soup page_one) []) []
              (cycle_site\<lparr>gets := [''http://shop.test/teas''],
                           page_log := [(1, ''http://shop.test/teas'')]\<rparr>))"
    by blast
  then have c: "fst (scrape_site_category absolute_ref generic_selectors ''shop'' shop_config
      ''teas'' ''/teas'' 1 cycle_site)
     = fst (extract_all absolute_ref ''shop_teas'' ''http://shop.test/teas'' [] [tea] []
              (cycle_site\<lparr>gets := [''http://shop.test/teas''],
                           page_log := [(1, ''http://shop.test/teas'')]\<rparr>))"
    by (simp only: page_one_elements append_Cons append_Nil)
  from a b c page_one_next show ?thesis by blast
qed

subsection \<open>Availability\<close>

lemma contains_sublist: "contains needle s \<longleftrightarrow> sublist needle s"
  by (induction s) (auto simp: sublist_Cons_right)

lemma disponibilite_extract:
  "disponibilite (fst (extract_product_data uj e cat url sels w)) =
   classify_availability (select_one e (dict_get sels ''availability'' ''.availability''))"
  by (simp add: extract_product_data_def Let_def split: prod.splits)

lemma next_draw_Cons: "rnd w = d # ds \<Longrightarrow> next_draw w = (d, w\<lparr>rnd := ds\<rparr>)"
  by (simp add: next_draw_def)

lemma json_disponibilite_draw:
  assumes "create_product_from_json item cat url w = (Inr p, w')"
  shows "disponibilite p =
         fst (random_choice [''Disponible'', ''Rupture''] (snd (random_uniform 9.99 99.99 w)))"
  using assms
  by (auto simp: create_product_from_json_def Let_def
      split: json.splits sum.splits option.splits prod.splits)

lemma choice_of_two: "[a, b] ! (d mod 2) = (if even d then a else b)"
proof (cases "even d")
  case True
  then have "d mod 2 = 0" by (simp add: even_iff_mod_2_eq_zero)
  with True show ?thesis by simp
next
  case False
  then have "d mod 2 = 1" by (simp add: odd_iff_mod_2_eq_one)
  with False show ?thesis by simp
qed

lemma json_disponibilite:
  assumes "create_product_from_json item cat url w = (Inr p, w')" and "rnd w = u # d # ds"
  shows "disponibilite p = (if even d then ''Disponible'' else ''Rupture'')"
proof -
  have "snd (random_uniform 9.99 99.99 w) = w\<lparr>rnd := d # ds\<rparr>"
    using assms(2) by (simp add: random_uniform_def next_draw_Cons)
  moreover have "fst (random_choice [''Disponible'', ''Rupture''] (w\<lparr>rnd := d # ds\<rparr>))
                 = [''Disponible'', ''Rupture''] ! (d mod 2)"
    by (simp add: random_choice_def next_draw_def numeral_2_eq_2)
  ultimately show ?thesis
    using json_disponibilite_draw[OF assms(1)] choice_of_two[of "''Disponible''" "''Rupture''" d]
    by simp
qed

lemma first_post:
  "create_product_from_json (post 1 ''a'') ''posts''
     ''https://jsonplaceholder.typicode.com/posts'' posts_site
   = (Inr \<lparr>titre = ''a'', prix = 2, disponibilite = ''Rupture'', note_moyenne = 3,
            description = ''text'', vendeur = ''Digital Store'',
            categorie = ''Digital Content'',
            lien_produit = ''https://jsonplaceholder.typicode.com/posts''\<rparr>,
      posts_site\<lparr>rnd := []\<rparr>)"
  by (simp add: eval_defs example_defs)

lemma out_of_stock_text: "lower (clean_text (get_text (leaf ''Out of stock''))) = ''out of stock''"
  by (simp add: eval_defs example_defs)

text \<open>
  C7 as it was stated fails in its last part: a record of the JSON path gets its
  availability from \<open>random.choice(['Disponible', 'Rupture'])\<close>, not the default of the markup
  path. With the draws 3 and 1 the first post, which says nothing of availability, is
  in "Rupture".
\<close>

theorem json_availability_is_drawn:
  "map_sum id disponibilite
     (fst (create_product_from_json (post 1 ''a'') ''posts''
             ''https://jsonplaceholder.typicode.com/posts'' posts_site))
   = Inr ''Rupture''"
  by (simp add: first_post)

text \<open>
  C7, as amended. On the markup path the availability is "Disponible" when no availability
  selector matches; when one matches, it is "Rupture" exactly when the matched text, cleaned
  (so cut to 300 characters) and lowered, has "out" or "rupture" as a substring, and
  "Disponible" otherwise. On the JSON path the availability is drawn: it is "Disponible"
  when the second draw of the item is even and "Rupture" when it is odd.
\<close>

theorem availability_classes:
  "classify_availability None = ''Disponible'' \<and>
   (classify_availability (Some a) = ''Rupture'' \<longleftrightarrow>
      sublist ''out'' (lower (clean_text (get_text a))) \<or>
      sublist ''rupture'' (lower (clean_text (get_text a)))) \<and>
   (classify_availability (Some a) \<noteq> ''Rupture'' \<longrightarrow>
      classify_availability (Some a) = ''Disponible'') \<and>
   disponibilite (fst (extract_product_data urljoin e cat url sels w)) =
     classify_availability (select_one e (dict_get sels ''availability'' ''.availability'')) \<and>
   (create_product_from_json item cat url w = (Inr p, w') \<and> rnd w = u # d # ds \<longrightarrow>
      disponibilite p = (if even d then ''Disponible'' else ''Rupture''))"
  using json_disponibilite[of item cat url w p w' u d ds]
  by (simp add: classify_availability_def contains_sublist disponibilite_extract Let_def)

theorem availability_classes_witness:
  "classify_availability None = ''Disponible'' \<and>
   classify_availability (Some (leaf ''Out of stock'')) = ''Rupture'' \<and>
   disponibilite (fst (extract_product_data absolute_ref tea ''shop_teas''
     ''http://shop.test/teas'' [] offline)) = ''Disponible'' \<and>
   disponibilite \<lparr>titre = ''a'', prix = 2, disponibilite = ''Rupture'', note_moyenne = 3,
            description = ''text'', vendeur = ''Digital Store'',
            categorie = ''Digital Content'',
            lien_produit = ''https://jsonplaceholder.typicode.com/posts''\<rparr> = ''Rupture''"
proof -
  note t = availability_classes [where a = "leaf ''Out of stock''" and urljoin = absolute_ref
      and e = tea and cat = "''shop_teas''" and url = "''http://shop.test/teas''"
      and sels = "[]" and w = offline]
  have s: "sublist ''out'' ''out of stock''" by (simp add: contains_sublist [symmetric])
  from t s have a: "classify_availability (Some (leaf ''Out of stock'')) = ''Rupture''"
    by (simp only: out_of_stock_text) blast
  have "select_one tea (dict_get [] ''availability'' ''.availability'') = None"
    by (simp add: select_one_def select_def dict_get_def tea_def)
  with t have b: "disponibilite (fst (extract_product_data absolute_ref tea ''shop_teas''
     ''http://shop.test/teas'' [] offline)) = ''Disponible''"
    by simp
  have r: "rnd posts_site = 3 # 1 # []" by (simp add: posts_site_def)
  from availability_classes [where item = "post 1 ''a''" and cat = "''posts''"
      and url = "''https://jsonplaceholder.typicode.com/posts''" and w = posts_site
      and w' = "posts_site\<lparr>rnd := []\<rparr>" and u = 3 and d = 1 and ds = "[]"
      and p = "\<lparr>titre = ''a'', prix = 2, disponibilite = ''Rupture'', note_moyenne = 3,
            description = ''text'', vendeur = ''Digital Store'',
            categorie = ''Digital Content'',
            lien_produit = ''https://jsonplaceholder.typicode.com/posts''\<rparr>"]
    first_post r
  have c: "disponibilite \<lparr>titre = ''a'', prix = 2, disponibilite = ''Rupture'', note_moyenne = 3,
            description = ''text'', vendeur = ''Digital Store'',
            categorie = ''Digital Content'',
            lien_produit = ''https://jsonplaceholder.typicode.com/posts''\<rparr> = ''Rupture''"
    by simp
  from t a b c show ?thesis by blast
qed

subsection \<open>The container fallback chain\<close>

lemma try_alternatives_first:
  "alts = pre @ B # rest \<Longrightarrow> \<forall>A\<in>set pre. select page A = [] \<Longrightarrow> select page B \<noteq> []
   \<Longrightarrow> try_alternatives page alts = select page B"
  by (induction pre arbitrary: alts) (auto simp: Let_def)

lemma find_product_elements_first:
  assumes "dict_get selectors ''product_container'' ''.product'' # alt_selectors = pre @ B # rest"
    and "\<forall>A\<in>set pre. select page A = []" and "select page B \<noteq> []"
  shows "find_product_elements page selectors = select page B"
proof (cases pre)
  case Nil
  with assms show ?thesis by (simp add: find_product_elements_def Let_def)
next
  case (Cons A pre')
  with assms have "alt_selectors = pre' @ B # rest"
     "select page (dict_get selectors ''product_container'' ''.product'') = []"
     "\<forall>A\<in>set pre'. select page A = []" by auto
  with assms(3) show ?thesis
    by (simp add: find_product_elements_def Let_def try_alternatives_first)
qed

lemma fetch_fallback_page:
  "make_request ''http://shop.test/teas'' 3
     (fallback_site\<lparr>page_log := page_log fallback_site @ [(1, ''http://shop.test/teas'')]\<rparr>)
   = (Some fallback_page, fallback_site\<lparr>gets := [''http://shop.test/teas''],
                                 page_log := [(1, ''http://shop.test/teas'')]\<rparr>)"
  by (simp add: make_request_def attempts.simps requests_get_def fallback_site_def)

lemma fallback_titles:
  "map titre (fst (extract_all absolute_ref (''shop'' @ ''_'' @ ''teas'')
      ''http://shop.test/teas'' [] [tea, coffee] []
      (fallback_site\<lparr>gets := [''http://shop.test/teas''],
                      page_log := [(1, ''http://shop.test/teas'')]\<rparr>)))
   = [''Tea'', ''Coffee 4.50'']"
  by (simp add: eval_defs example_defs)

text \<open>
  C6. The chain of container selectors is the configured one followed by \<open>article\<close>,
  \<open>.item\<close>, \<open>.product-item\<close>, \<open>li\<close>, \<open>.product-grid\<close>. When every selector before \<open>B\<close> in the
  chain matches nothing on the fetched page and \<open>B\<close> matches something, the elements that
  the engine processes are the matches of \<open>B\<close>, and the records of the page are extracted
  from exactly these, whatever the selectors after \<open>B\<close> match.
\<close>

theorem container_fallback_order:
  assumes "dict_get selectors ''product_container'' ''.product'' # alt_selectors
           = pre @ B # rest"
    and "\<forall>A\<in>set pre. select (soup resp) A = []"
    and "select (soup resp) B \<noteq> []"
    and "\<not> contains ''jsonplaceholder'' site_name"
    and "make_request current_url 3 (w\<lparr>page_log := page_log w @ [(page_count, current_url)]\<rparr>)
         = (Some resp, w1)"
  shows "find_product_elements (soup resp) selectors = select (soup resp) B \<and>
         products_of (visit_page urljoin site_name category_name selectors products
                        current_url page_count w)
         = fst (extract_all urljoin (site_name @ ''_'' @ category_name) current_url selectors
                  (select (soup resp) B) products w1)"
proof -
  have f: "find_product_elements (soup resp) selectors = select (soup resp) B"
    using assms(1-3) by (rule find_product_elements_first)
  with assms(3) have "find_product_elements (soup resp) selectors \<noteq> []" by simp
  from visit_page_markup[OF assms(4) assms(5) this] f show ?thesis by simp
qed

theorem container_fallback_order_witness:
  "find_product_elements (soup fallback_page) [] = [tea, coffee] \<and>
   map titre (products_of (visit_page absolute_ref ''shop'' ''teas'' [] []
                 ''http://shop.test/teas'' 1 fallback_site))
   = [''Tea'', ''Coffee 4.50'']"
proof -
  have 1: "dict_get [] ''product_container'' ''.product'' # alt_selectors
           = [''.product''] @ ''article'' # [''.item'', ''.product-item'', ''li'', ''.product-grid'']"
    by (simp add: dict_get_def alt_selectors_def)
  have 2: "\<forall>A\<in>set [''.product'']. select (soup fallback_page) A = []"
    by (simp add: select_def fallback_page_def)
  have s: "select (soup fallback_page) ''article'' = [tea, coffee]"
    by (simp add: select_def fallback_page_def)
  then have 3: "select (soup fallback_page) ''article'' \<noteq> []" by simp
  have 4: "\<not> contains ''jsonplaceholder'' ''shop''" by simp
  from container_fallback_order [OF 1 2 3 4 fetch_fallback_page, of absolute_ref "''teas''" "[]"]
  show ?thesis by (simp only: s fallback_titles)
qed

subsection \<open>Fetching\<close>

lemma make_request_3:
  "make_request url 3 w =
     (case net w (length (gets w)) url of
        Some r \<Rightarrow> (Some r, w\<lparr>gets := gets w @ [url]\<rparr>)
      | None \<Rightarrow>
          (case net w (length (gets w) + 1) url of
             Some r \<Rightarrow> (Some r, w\<lparr>gets := gets w @ [url, url], sleeps := sleeps w @ [1]\<rparr>)
           | None \<Rightarrow>
               (case net w (length (gets w) + 2) url of
                  Some r \<Rightarrow> (Some r, w\<lparr>gets := gets w @ [url, url, url],
                                         sleeps := sleeps w @ [1, 2]\<rparr>)
                | None \<Rightarrow> (None, w\<lparr>gets := gets w @ [url, url, url],
                                    sleeps := sleeps w @ [1, 2]\<rparr>))))"
  unfolding make_request_def
  apply (subst attempts.simps)
  apply (subst attempts.simps)
  apply (subst attempts.simps)
  apply (subst attempts.simps)
  apply (simp add: requests_get_def time_sleep_def split: option.splits)
  done

lemma walk_fetch_error:
  assumes "current_url \<noteq> []" and "page_count < max_pages"
    and "fst (make_request current_url 3
               (w\<lparr>page_log := page_log w @ [(page_count + 1, current_url)]\<rparr>)) = None"
  shows "walk urljoin site_name category_name selectors max_pages products current_url
           page_count w
         = (products, snd (make_request current_url 3
               (w\<lparr>page_log := page_log w @ [(page_count + 1, current_url)]\<rparr>)))"
proof -
  obtain w1 where "make_request current_url 3
               (w\<lparr>page_log := page_log w @ [(page_count + 1, current_url)]\<rparr>) = (None, w1)"
    using assms(3) by (metis prod.collapse)
  then have "visit_page urljoin site_name category_name selectors products current_url
               (page_count + 1) w = Break products w1"
    by (simp add: visit_page_def)
  with assms(1,2) \<open>make_request _ _ _ = (None, w1)\<close> show ?thesis
    by (simp add: walk_step)
qed

lemma flaky_outcomes:
  "net flaky_site (length (gets flaky_site)) ''http://shop.test/teas'' = None"
  "net flaky_site (length (gets flaky_site) + 1) ''http://shop.test/teas'' = None"
  "net flaky_site (length (gets flaky_site) + 2) ''http://shop.test/teas'' = Some fallback_page"
  by (simp_all add: flaky_site_def)

lemma offline_outcomes: "net (w\<lparr>page_log := l\<rparr>) = net w" "net offline k url = None"
  by (simp_all add: offline_def)

text \<open>
  C8. \<open>make_request\<close> with its three attempts calls \<open>requests.get\<close> once, twice or three
  times: it returns the first response it gets, after sleeping \<open>2 ^ 0\<close> seconds behind a
  failed first attempt and \<open>2 ^ 1\<close> seconds behind a failed second one, and nothing behind a
  failed third one. It returns \<open>None\<close> exactly when the three attempts fail. When that
  happens at any point of a crawl, \<open>scrape_site_category\<close> returns with the products
  collected so far, unchanged, and no further request.
\<close>

theorem fetch_retries:
  "make_request url 3 w =
     (case net w (length (gets w)) url of
        Some r \<Rightarrow> (Some r, w\<lparr>gets := gets w @ [url]\<rparr>)
      | None \<Rightarrow>
          (case net w (length (gets w) + 1) url of
             Some r \<Rightarrow> (Some r, w\<lparr>gets := gets w @ [url, url], sleeps := sleeps w @ [2 ^ 0]\<rparr>)
           | None \<Rightarrow>
               (case net w (length (gets w) + 2) url of
                  Some r \<Rightarrow> (Some r, w\<lparr>gets := gets w @ [url, url, url],
                                         sleeps := sleeps w @ [2 ^ 0, 2 ^ 1]\<rparr>)
                | None \<Rightarrow> (None, w\<lparr>gets := gets w @ [url, url, url],
                                    sleeps := sleeps w @ [2 ^ 0, 2 ^ 1]\<rparr>)))) \<and>
   length (gets (snd (make_request url 3 w))) \<le> length (gets w) + 3 \<and>
   (fst (make_request url 3 w) = None \<longleftrightarrow>
      net w (length (gets w)) url = None \<and> net w (length (gets w) + 1) url = None \<and>
      net w (length (gets w) + 2) url = None) \<and>
   (current_url \<noteq> [] \<and> page_count < max_pages \<and>
    fst (make_request current_url 3
          (w\<lparr>page_log := page_log w @ [(page_count + 1, current_url)]\<rparr>)) = None \<longrightarrow>
    walk urljoin site_name category_name selectors max_pages products current_url page_count w
      = (products, snd (make_request current_url 3
          (w\<lparr>page_log := page_log w @ [(page_count + 1, current_url)]\<rparr>))))"
proof -
  have a: "length (gets (snd (make_request url 3 w))) \<le> length (gets w) + 3"
    by (simp add: make_request_3 split: option.splits)
  have b: "fst (make_request url 3 w) = None \<longleftrightarrow>
      net w (length (gets w)) url = None \<and> net w (length (gets w) + 1) url = None \<and>
      net w (length (gets w) + 2) url = None"
    by (simp add: make_request_3 split: option.splits)
  have c: "make_request url 3 w =
     (case net w (length (gets w)) url of
        Some r \<Rightarrow> (Some r, w\<lparr>gets := gets w @ [url]\<rparr>)
      | None \<Rightarrow>
          (case net w (length (gets w) + 1) url of
             Some r \<Rightarrow> (Some r, w\<lparr>gets := gets w @ [url, url], sleeps := sleeps w @ [2 ^ 0]\<rparr>)
           | None \<Rightarrow>
               (case net w (length (gets w) + 2) url of
                  Some r \<Rightarrow> (Some r, w\<lparr>gets := gets w @ [url, url, url],
                                         sleeps := sleeps w @ [2 ^ 0, 2 ^ 1]\<rparr>)
                | None \<Rightarrow> (None, w\<lparr>gets := gets w @ [url, url, url],
                                    sleeps := sleeps w @ [2 ^ 0, 2 ^ 1]\<rparr>))))"
    by (simp add: make_request_3 split: option.splits)
  have d: "current_url \<noteq> [] \<and> page_count < max_pages \<and>
    fst (make_request current_url 3
          (w\<lparr>page_log := page_log w @ [(page_count + 1, current_url)]\<rparr>)) = None \<longrightarrow>
    walk urljoin site_name category_name selectors max_pages products current_url page_count w
      = (products, snd (make_request current_url 3
          (w\<lparr>page_log := page_log w @ [(page_count + 1, current_url)]\<rparr>)))"
    using walk_fetch_error[of current_url page_count max_pages w
      urljoin site_name category_name selectors products]
    by blast
  show ?thesis by (rule conjI[OF c conjI[OF a conjI[OF b d]]])
qed

theorem fetch_retries_witness:
  "make_request ''http://shop.test/teas'' 3 flaky_site
     = (Some fallback_page,
        flaky_site\<lparr>gets := gets flaky_site @ [''http://shop.test/teas'',
                      ''http://shop.test/teas'', ''http://shop.test/teas''],
                    sleeps := sleeps flaky_site @ [2 ^ 0, 2 ^ 1]\<rparr>) \<and>
   fst (make_request ''http://shop.test/teas'' 3 offline) = None \<and>
   fst (walk absolute_ref ''shop'' ''teas'' [] 10
          [\<lparr>titre = ''Tea'', prix = 19.99, disponibilite = ''Disponible'', note_moyenne = 3,
             description = [], vendeur = ''N/A'', categorie = ''Shop Teas'',
             lien_produit = ''http://shop.test/tea;v=2''\<rparr>]
          ''http://shop.test/teas?page=2'' 1 offline)
     = [\<lparr>titre = ''Tea'', prix = 19.99, disponibilite = ''Disponible'', note_moyenne = 3,
          description = [], vendeur = ''N/A'', categorie = ''Shop Teas'',
          lien_produit = ''http://shop.test/tea;v=2''\<rparr>]"
proof -
  note t1 = fetch_retries [where url = "''http://shop.test/teas''" and w = flaky_site,
      THEN conjunct1]
  from t1 have a: "make_request ''http://shop.test/teas'' 3 flaky_site
     = (Some fallback_page,
        flaky_site\<lparr>gets := gets flaky_site @ [''http://shop.test/teas'',
                      ''http://shop.test/teas'', ''http://shop.test/teas''],
                    sleeps := sleeps flaky_site @ [2 ^ 0, 2 ^ 1]\<rparr>)"
    by (simp only: flaky_outcomes option.case)
  note t2 = fetch_retries [where url = "''http://shop.test/teas''" and w = offline,
      THEN conjunct2, THEN conjunct2, THEN conjunct1]
  from t2 have b: "fst (make_request ''http://shop.test/teas'' 3 offline) = None"
    by (simp only: offline_outcomes)
  note t3 = fetch_retries [where url = "''http://shop.test/teas?page=2''"
      and w = "offline\<lparr>page_log := page_log offline @ [(1 + 1, ''http://shop.test/teas?page=2'')]\<rparr>",
      THEN conjunct2, THEN conjunct2, THEN conjunct1]
  from t3 have f: "fst (make_request ''http://shop.test/teas?page=2'' 3
      (offline\<lparr>page_log := page_log offline @ [(1 + 1, ''http://shop.test/teas?page=2'')]\<rparr>))
      = None"
    by (simp only: offline_outcomes)
  have g: "''http://shop.test/teas?page=2'' \<noteq> []" "(1::nat) < 10" by simp_all
  from fetch_retries [where current_url = "''http://shop.test/teas?page=2''"
      and page_count = 1 and max_pages = 10 and w = offline and urljoin = absolute_ref
      and site_name = "''shop''" and category_name = "''teas''" and selectors = "[]"
      and products = "[\<lparr>titre = ''Tea'', prix = 19.99, disponibilite = ''Disponible'',
             note_moyenne = 3, description = [], vendeur = ''N/A'', categorie = ''Shop Teas'',
             lien_produit = ''http://shop.test/tea;v=2''\<rparr>]",
      THEN conjunct2, THEN conjunct2, THEN conjunct2] f g
  have c: "fst (walk absolute_ref ''shop'' ''teas'' [] 10
          [\<lparr>titre = ''Tea'', prix = 19.99, disponibilite = ''Disponible'', note_moyenne = 3,
             description = [], vendeur = ''N/A'', categorie = ''Shop Teas'',
             lien_produit = ''http://shop.test/tea;v=2''\<rparr>]
          ''http://shop.test/teas?page=2'' 1 offline)
     = [\<lparr>titre = ''Tea'', prix = 19.99, disponibilite = ''Disponible'', note_moyenne = 3,
          description = [], vendeur = ''N/A'', categorie = ''Shop Teas'',
          lien_produit = ''http://shop.test/tea;v=2''\<rparr>]"
    by simp
  from a b c show ?thesis by (intro conjI)
qed

subsection \<open>The JSON path\<close>

lemma create_plain:
  assumes "plain_item item"
  shows "\<exists>p w'. create_product_from_json item cat url w = (Inr p, w') \<and>
                 titre p = item_title item \<and> titre p \<noteq> []"
  using assms
  by (auto simp: plain_item_def item_title_def create_product_from_json_def Let_def
      split: json.splits option.splits prod.splits)

lemma json_items_plain:
  "\<forall>item\<in>set items. plain_item item \<Longrightarrow>
   \<exists>ps w'. json_items cat url items products w = (products @ ps, w') \<and>
            map titre ps = map item_title items"
proof (induction items arbitrary: products w)
  case Nil
  then show ?case by simp
next
  case (Cons item items)
  then have "plain_item item" by simp
  from create_plain[OF this, of cat url w] obtain p w1 where
    p: "create_product_from_json item cat url w = (Inr p, w1)" "titre p = item_title item"
       "titre p \<noteq> []" by blast
  from Cons have "\<forall>item\<in>set items. plain_item item" by simp
  from Cons.IH[OF this, of "products @ [p]" w1] obtain ps w' where
    "json_items cat url items (products @ [p]) w1 = ((products @ [p]) @ ps, w')"
    "map titre ps = map item_title items" by blast
  with p have "json_items cat url (item # items) products w = (products @ (p # ps), w') \<and>
               map titre (p # ps) = map item_title (item # items)"
    by simp
  then show ?case by blast
qed

text \<open>An id that is an integer beyond the doubles raises, and the crawl ends with the records
  made before it.\<close>

lemma huge_id_raises:
  "fst (create_product_from_json (JObj [(''id'', JNum (10 ^ 309)), (''title'', JStr ''a'')])
          cat url w) = Inl OverflowError"
  by (simp add: create_product_from_json_def dict_get_def clean_text_def strip_def is_space_def
      whitespace_def replace_char_def float_limit_def random_uniform_def Let_def
      split: prod.splits)

lemma huge_id_ends_crawl:
  "fst (json_items cat url
          [post 1 ''a'', JObj [(''id'', JNum (10 ^ 309)), (''title'', JStr ''b'')], post 3 ''c'']
          [] posts_site)
   = [\<lparr>titre = ''a'', prix = 2, disponibilite = ''Rupture'', note_moyenne = 3,
        description = ''text'', vendeur = ''Digital Store'',
        categorie = ''Digital Content'', lien_produit = url\<rparr>]"
  by (simp add: eval_defs example_defs)

lemma fetch_posts:
  "make_request (base_url jsonplaceholder_config @ ''/posts'') 3
     (posts_site\<lparr>page_log := page_log posts_site @
        [(1, base_url jsonplaceholder_config @ ''/posts'')]\<rparr>)
   = (Some \<lparr>soup = Element [] [] [] [], json_body = Some (JList five_posts)\<rparr>,
      posts_site\<lparr>gets := [''https://jsonplaceholder.typicode.com/posts''],
                   page_log := [(1, ''https://jsonplaceholder.typicode.com/posts'')]\<rparr>)"
  by (simp add: make_request_def attempts.simps requests_get_def posts_site_def
      jsonplaceholder_config_def)

lemma five_posts_plain: "\<forall>item\<in>set five_posts. plain_item item"
  by (simp add: five_posts_def post_def plain_item_def dict_get_def float_limit_def)

lemma five_posts_titles:
  "map item_title five_posts = [''a'', ''b'', ''Digital Item'', ''d'', ''e'']"
  by (simp add: five_posts_def post_def item_title_def dict_get_def eval_defs)

text \<open>
  C3 as it was stated fails: an item without title or name is not dropped, it is given the
  title "Digital Item". The list of five posts whose third has no title yields five
  records.
\<close>

theorem untitled_item_is_kept:
  "map titre (fst (scrape_site_category absolute_ref generic_selectors ''jsonplaceholder''
      jsonplaceholder_config ''posts'' ''/posts'' 10 posts_site))
   = [''a'', ''b'', ''Digital Item'', ''d'', ''e'']"
  by (simp add: walk.simps eval_defs example_defs)

text \<open>
  C3, as amended. When the response of a JSON site is a list of plain items (objects whose
  title or name and whose body are strings or absent, and whose id is absent or a number
  below \<open>float_limit\<close> in size, so that \<open>float\<close> accepts it), the crawl returns one record
  for each item, in the order of the list; an item whose title resolves to the empty
  string has the title "Digital Item", so that no record has an empty title and none is
  dropped.
\<close>

theorem json_cardinality:
  assumes "contains ''jsonplaceholder'' site_name"
    and "base_url config @ category_path \<noteq> []" and "0 < max_pages"
    and "make_request (base_url config @ category_path) 3
           (w\<lparr>page_log := page_log w @ [(1, base_url config @ category_path)]\<rparr>)
         = (Some resp, w1)"
    and "json_body resp = Some (JList items)"
    and "\<forall>item\<in>set items. plain_item item"
  shows "map titre (fst (scrape_site_category urljoin self_selectors site_name config
           category_name category_path max_pages w)) = map item_title items \<and>
         length (fst (scrape_site_category urljoin self_selectors site_name config
           category_name category_path max_pages w)) = length items \<and>
         [] \<notin> set (map titre (fst (scrape_site_category urljoin self_selectors site_name
           config category_name category_path max_pages w)))"
proof -
  let ?url = "base_url config @ category_path"
  from json_items_plain[OF assms(6), of category_name ?url "[]" w1] obtain ps w' where
    ps: "json_items category_name ?url items [] w1 = (ps, w')"
        "map titre ps = map item_title items" by auto
  have "visit_page urljoin site_name category_name (selectors_for self_selectors config) []
          ?url (0 + 1) w = Break ps w'"
    using assms(1,4,5) ps(1) by (simp add: visit_page_def json_page_def)
  then have r: "fst (scrape_site_category urljoin self_selectors site_name config
           category_name category_path max_pages w) = ps"
    using assms(2,3) by (simp add: scrape_site_category_def walk_step)
  have ne: "\<And>item. plain_item item \<Longrightarrow> item_title item \<noteq> []"
    using create_plain by metis
  have "[] \<notin> set (map item_title items)"
    using assms(6) ne by (metis (no_types) imageE list.set_map)
  with r ps(2) show ?thesis by (metis length_map)
qed

theorem json_cardinality_witness:
  "map titre (fst (scrape_site_category absolute_ref generic_selectors ''jsonplaceholder''
      jsonplaceholder_config ''posts'' ''/posts'' 10 posts_site))
     = map item_title five_posts \<and>
   length (fst (scrape_site_category absolute_ref generic_selectors ''jsonplaceholder''
      jsonplaceholder_config ''posts'' ''/posts'' 10 posts_site)) = length five_posts \<and>
   [] \<notin> set (map titre (fst (scrape_site_category absolute_ref generic_selectors
      ''jsonplaceholder'' jsonplaceholder_config ''posts'' ''/posts'' 10 posts_site))) \<and>
   map item_title five_posts = [''a'', ''b'', ''Digital Item'', ''d'', ''e'']"
proof -
  have 1: "contains ''jsonplaceholder'' ''jsonplaceholder''" by simp
  have 2: "base_url jsonplaceholder_config @ ''/posts'' \<noteq> []"
    by (simp add: jsonplaceholder_config_def)
  have 3: "(0::nat) < 10" by simp
  have 5: "json_body \<lparr>soup = Element [] [] [] [], json_body = Some (JList five_posts)\<rparr>
           = Some (JList five_posts)" by simp
  from json_cardinality [OF 1 2 3 fetch_posts 5 five_posts_plain, of absolute_ref
      generic_selectors "''posts''"] five_posts_titles
  show ?thesis by (intro conjI) blast+
qed

subsection \<open>Aggregation\<close>

lemma scrape_categories_concat:
  "\<exists>bs. returned (scrape_categories uj sels target site config cats st) = returned st @ bs \<and>
        all_products (scrape_categories uj sels target site config cats st)
          = all_products st @ concat bs"
proof (induction cats arbitrary: st)
  case Nil
  then show ?case by simp
next
  case (Cons c cats)
  obtain name path where c: "c = (name, path)" by (cases c)
  show ?case
  proof (cases "total_products st \<ge> target")
    case True
    with c show ?thesis by simp
  next
    case False
    obtain ps w' where s: "scrape_site_category uj sels site config name path 10 (outside st)
                           = (ps, w')"
      by (cases "scrape_site_category uj sels site config name path 10 (outside st)")
    let ?st = "st\<lparr>all_products := (if ps \<noteq> [] then all_products st @ ps else all_products st),
                    total_products := (if ps \<noteq> [] then total_products st + length ps
                                       else total_products st),
                    returned := returned st @ [ps],
                    outside := random_delay 2 4 w'\<rparr>"
    from Cons.IH[of ?st] obtain bs where
      bs: "returned (scrape_categories uj sels target site config cats ?st)
             = returned ?st @ bs"
          "all_products (scrape_categories uj sels target site config cats ?st)
             = all_products ?st @ concat bs" by blast
    have e: "scrape_categories uj sels target site config (c # cats) st
             = scrape_categories uj sels target site config cats ?st"
      using False c s by simp
    have "returned (scrape_categories uj sels target site config (c # cats) st)
            = returned st @ (ps # bs)"
      using bs(1) e by simp
    moreover have "all_products (scrape_categories uj sels target site config (c # cats) st)
            = all_products st @ concat (ps # bs)"
      using bs(2) e by simp
    ultimately show ?thesis by blast
  qed
qed

lemma scrape_sites_concat:
  "\<exists>bs. returned (scrape_sites uj sels target sites st) = returned st @ bs \<and>
        all_products (scrape_sites uj sels target sites st) = all_products st @ concat bs"
proof (induction sites arbitrary: st)
  case Nil
  then show ?case by simp
next
  case (Cons s sites)
  obtain site config where s: "s = (site, config)" by (cases s)
  show ?case
  proof (cases "total_products st \<ge> target")
    case True
    with s show ?thesis by simp
  next
    case False
    let ?st = "scrape_categories uj sels target site config (categories config) st"
    from scrape_categories_concat[of uj sels target site config "categories config" st]
    obtain bs1 where 1: "returned ?st = returned st @ bs1"
      "all_products ?st = all_products st @ concat bs1" by blast
    from Cons.IH[of ?st] obtain bs2 where
      2: "returned (scrape_sites uj sels target sites ?st) = returned ?st @ bs2"
         "all_products (scrape_sites uj sels target sites ?st) = all_products ?st @ concat bs2"
      by blast
    have e: "scrape_sites uj sels target (s # sites) st = scrape_sites uj sels target sites ?st"
      using False s by simp
    have "returned (scrape_sites uj sels target (s # sites) st) = returned st @ (bs1 @ bs2)"
      using 1 2 e by simp
    moreover have "all_products (scrape_sites uj sels target (s # sites) st)
                   = all_products st @ concat (bs1 @ bs2)"
      using 1 2 e by simp
    ultimately show ?thesis by blast
  qed
qed

lemma fallback_run:
  "scrape_site_category absolute_ref generic_selectors ''shop'' shop_config ''teas'' ''/teas''
     10 fallback_site
   = ([\<lparr>titre = ''Tea'', prix = 19.99, disponibilite = ''Disponible'', note_moyenne = 3,
         description = [], vendeur = ''N/A'', categorie = ''Shop Teas'',
         lien_produit = ''http://shop.test/tea;v=2''\<rparr>,
       \<lparr>titre = ''Coffee 4.50'', prix = 4.5, disponibilite = ''Disponible'', note_moyenne = 3,
         description = [], vendeur = ''N/A'', categorie = ''Shop Teas'',
         lien_produit = ''http://shop.test/teas''\<rparr>],
      fallback_site\<lparr>gets := [''http://shop.test/teas''],
                     page_log := [(1, ''http://shop.test/teas'')]\<rparr>)"
  by (simp add: walk.simps eval_defs example_defs)

lemma fallback_aggregate:
  "returned (scrape_all_diverse_sites absolute_ref generic_selectors [(''shop'', shop_config)]
               [] 1000 fallback_site)
   = [fst (scrape_site_category absolute_ref generic_selectors ''shop'' shop_config ''teas''
             ''/teas'' 10 fallback_site)]"
  by (simp add: scrape_all_diverse_sites_def fallback_run)
     (simp add: shop_config_def fallback_run [unfolded shop_config_def])

text \<open>
  C9 as it was stated fails in its last part: no aggregator adds a label. In
  \<open>app_streamlit_scraping.py\<close> the key \<open>source\<close> is already in the record that
  \<open>_extract_product_data\<close> returns, and the driver only extends its list with the batch; in
  \<open>diverse_scraper.py\<close> the collection is the batch as \<open>scrape_site_category\<close> returned it.
\<close>

theorem source_is_set_by_extraction:
  "source (fst (st_extract_product_data absolute_ref tea ''shop_teas''
                  ''http://shop.test/teas'' [] offline)) = ''shop'' \<and>
   st_extend [] [fst (st_extract_product_data absolute_ref tea ''shop_teas''
                        ''http://shop.test/teas'' [] offline)]
     = [fst (st_extract_product_data absolute_ref tea ''shop_teas''
               ''http://shop.test/teas'' [] offline)] \<and>
   all_products (scrape_all_diverse_sites absolute_ref generic_selectors
                   [(''shop'', shop_config)] [] 1000 fallback_site)
     = fst (scrape_site_category absolute_ref generic_selectors ''shop'' shop_config ''teas''
              ''/teas'' 10 fallback_site)"
proof -
  have "source (fst (st_extract_product_data absolute_ref tea ''shop_teas''
                  ''http://shop.test/teas'' [] offline)) = ''shop''"
    by (simp add: st_extract_product_data_def source_label_def split: prod.splits)
  moreover have "all_products (scrape_all_diverse_sites absolute_ref generic_selectors
                   [(''shop'', shop_config)] [] 1000 fallback_site)
     = fst (scrape_site_category absolute_ref generic_selectors ''shop'' shop_config ''teas''
              ''/teas'' 10 fallback_site)"
    by (simp add: scrape_all_diverse_sites_def fallback_run)
       (simp add: shop_config_def fallback_run [unfolded shop_config_def])
  ultimately show ?thesis by (simp add: st_extend_def)
qed

text \<open>
  C9, as amended. The collection that \<open>scrape_all_diverse_sites\<close> returns is what
  \<open>self.all_products\<close> held before, followed by the lists that the calls of
  \<open>scrape_site_category\<close> returned, in call order: no record is dropped, merged or changed,
  and nothing is added to a record.
\<close>

theorem aggregation_is_concatenation:
  "all_products (scrape_all_diverse_sites urljoin self_selectors diverse_sites
                   self_all_products target_products w)
   = self_all_products @
     concat (returned (scrape_all_diverse_sites urljoin self_selectors diverse_sites
                         self_all_products target_products w))"
  using scrape_sites_concat [of urljoin self_selectors target_products diverse_sites
      "\<lparr>all_products = self_all_products, total_products = 0, returned = [], outside = w\<rparr>"]
  by (auto simp: scrape_all_diverse_sites_def)

theorem aggregation_is_concatenation_witness:
  "all_products (scrape_all_diverse_sites absolute_ref generic_selectors
                   [(''shop'', shop_config)] [] 1000 fallback_site)
   = fst (scrape_site_category absolute_ref generic_selectors ''shop'' shop_config ''teas''
            ''/teas'' 10 fallback_site)"
  using aggregation_is_concatenation [of absolute_ref generic_selectors
      "[(''shop'', shop_config)]" "[]" 1000 fallback_site]
  by (simp add: fallback_aggregate)

subsection \<open>The rating of a record\<close>

text \<open>
  C1 asks for a rating between 0 and 5. An element matched by the rating selector that
  does not carry the class \<open>star-rating\<close> is read by \<open>extract_price\<close>: the card whose
  ratings element says "14 reviews" gets the rating 14, and the card whose ratings element
  has no digit gets one of the default prices, here 79.99.
\<close>

theorem rating_above_five:
  "fst (extract_product_data absolute_ref laptop ''webscraper_varied_static_computers''
          ''https://webscraper.io/test-sites/e-commerce/static/computers''
          webscraper_selectors offline)
   = \<lparr>titre = ''Asus VivoBook'', prix = 295.99, disponibilite = ''Disponible'',
       note_moyenne = 14, description = [], vendeur = ''N/A'',
       categorie = ''Webscraper Varied Static Computers'',
       lien_produit = ''https://webscraper.io/product/1''\<rparr> \<and>
   fst (extract_product_data absolute_ref tablet ''webscraper_varied_static_computers''
          ''https://webscraper.io/test-sites/e-commerce/static/computers''
          webscraper_selectors offline)
   = \<lparr>titre = ''Lenovo Tab'', prix = 99.5, disponibilite = ''Disponible'',
       note_moyenne = 79.99, description = [], vendeur = ''N/A'',
       categorie = ''Webscraper Varied Static Computers'',
       lien_produit = ''https://webscraper.io/test-sites/e-commerce/static/computers''\<rparr>"
  by (simp add: eval_defs example_defs tablet_def)

end
